theory Spec2Isabelle
  imports Main "HOL-Library.Word" "HOL-Library.Sublist"
begin

section \<open>Data model of pkg/bbgo/session.go\<close>

text \<open>
  Go pointers are addresses into typed heaps: an address is the index of the object
  in the list of objects of its type allocated so far, a pointer is an address or nil
  (\<open>None\<close>). Pointers of different types never alias, so each indicator type has a heap
  of its own.
\<close>

type_synonym addr = nat
type_synonym pointer = "addr option"

text \<open>
  \<open>float64\<close> values are only stored and copied by this file, never computed with: they
  are modelled by their IEEE 754 bit pattern. The literal \<open>2.0\<close> is
  \<open>0x4000000000000000\<close>, the zero value \<open>0.0\<close> is \<open>0\<close>.
\<close>

type_synonym float64 = "64 word"

definition float64_2 :: float64 where
  "float64_2 = 0x4000000000000000"

text \<open>\<open>types.Interval\<close> is a string type; \<open>types.IntervalWindow\<close> is a comparable struct.\<close>

type_synonym Interval = string

record IntervalWindow =
  Interval :: Interval
  Window :: int

text \<open>
  The indicator structs of pkg/indicator, with the fields the composite literals of
  this file set (every other field has its zero value at allocation).
\<close>

record indicator_SMA =
  SMA_IntervalWindow :: IntervalWindow

record indicator_EWMA =
  EWMA_IntervalWindow :: IntervalWindow

record indicator_BOLL =
  BOLL_IntervalWindow :: IntervalWindow
  BOLL_K :: float64

datatype indicator_ref = SMA_ref addr | EWMA_ref addr | BOLL_ref addr

text \<open>
  The part of the program state the indicator registry reads and writes: the three
  heaps of indicator objects, and the consumers registered with market data stores, in
  the order of registration (each entry is one call of \<open>Bind\<close>: the receiver and the
  \<open>*MarketDataStore\<close> argument).
\<close>

record heap =
  sma_heap :: "indicator_SMA list"
  ewma_heap :: "indicator_EWMA list"
  boll_heap :: "indicator_BOLL list"
  bound :: "(indicator_ref \<times> pointer) list"

definition empty_heap :: heap where
  "empty_heap = \<lparr>sma_heap = [], ewma_heap = [], boll_heap = [], bound = []\<rparr>"

text \<open>
  Modelled from the spec: the method \<open>Bind\<close> of pkg/indicator is not in the source. The
  spec's binding contract: binding an indicator to the store registers it as an
  incremental consumer of that store's update stream; it is a synchronous registration
  with no failure mode.
\<close>

definition Bind :: "indicator_ref \<Rightarrow> pointer \<Rightarrow> heap \<Rightarrow> heap" where
  "Bind inc updater h = h\<lparr>bound := bound h @ [(inc, updater)]\<rparr>"

text \<open>
  \<open>StandardIndicatorSet\<close>. The maps are the ones made by \<open>make\<close> in
  \<open>NewStandardIndicatorSet\<close>; the values this file stores in them are addresses of
  objects it has just allocated, never nil.
\<close>

record StandardIndicatorSet =
  Symbol :: string
  SMA :: "IntervalWindow \<rightharpoonup> addr"
  EWMA :: "IntervalWindow \<rightharpoonup> addr"
  BOLL :: "IntervalWindow \<rightharpoonup> addr"
  store :: pointer

text \<open>The comma-ok form of a map read, \<open>v, ok := m[k]\<close>: nil and false when the key is absent.\<close>

definition lookup_ok :: "('k \<rightharpoonup> addr) \<Rightarrow> 'k \<Rightarrow> pointer \<times> bool" where
  "lookup_ok m k = (case m k of None \<Rightarrow> (None, False) | Some a \<Rightarrow> (Some a, True))"

section \<open>The indicator registry\<close>

subsection \<open>Allocation\<close>

definition new_SMA :: "indicator_SMA \<Rightarrow> heap \<Rightarrow> addr \<times> heap" where
  "new_SMA obj h = (length (sma_heap h), h\<lparr>sma_heap := sma_heap h @ [obj]\<rparr>)"

definition new_EWMA :: "indicator_EWMA \<Rightarrow> heap \<Rightarrow> addr \<times> heap" where
  "new_EWMA obj h = (length (ewma_heap h), h\<lparr>ewma_heap := ewma_heap h @ [obj]\<rparr>)"

definition new_BOLL :: "indicator_BOLL \<Rightarrow> heap \<Rightarrow> addr \<times> heap" where
  "new_BOLL obj h = (length (boll_heap h), h\<lparr>boll_heap := boll_heap h @ [obj]\<rparr>)"

subsection \<open>NewStandardIndicatorSet\<close>

text \<open>
  The body of the inner loop, for one window: the statement \<open>set.SMA[iw].Bind(store)\<close>
  reads back the pointer stored by the statement before it.
\<close>

definition prewarm_window ::
  "pointer \<Rightarrow> Interval \<Rightarrow> StandardIndicatorSet \<times> heap \<Rightarrow> int \<Rightarrow> StandardIndicatorSet \<times> heap" where
  "prewarm_window st interval sh window =
     (let (s, h) = sh;
          iw = \<lparr>Interval = interval, Window = window\<rparr>;
          (a, h) = new_SMA \<lparr>SMA_IntervalWindow = iw\<rparr> h;
          s = s\<lparr>SMA := (SMA s)(iw \<mapsto> a)\<rparr>;
          h = Bind (SMA_ref a) st h;
          (b, h) = new_EWMA \<lparr>EWMA_IntervalWindow = iw\<rparr> h;
          s = s\<lparr>EWMA := (EWMA s)(iw \<mapsto> b)\<rparr>;
          h = Bind (EWMA_ref b) st h
      in (s, h))"

text \<open>The body of the outer loop, for one interval.\<close>

definition prewarm_interval ::
  "pointer \<Rightarrow> StandardIndicatorSet \<times> heap \<Rightarrow> Interval \<Rightarrow> StandardIndicatorSet \<times> heap" where
  "prewarm_interval st sh interval =
     (let (s, h) = foldl (prewarm_window st interval) sh [7, 25, 99];
          iw = \<lparr>Interval = interval, Window = 21\<rparr>;
          (c, h) = new_BOLL \<lparr>BOLL_IntervalWindow = iw, BOLL_K = float64_2\<rparr> h;
          s = s\<lparr>BOLL := (BOLL s)(iw \<mapsto> c)\<rparr>;
          h = Bind (BOLL_ref c) st h
      in (s, h))"

text \<open>
  \<open>types.SupportedIntervals\<close> is a map of pkg/types that is not in the source: its keys
  are the parameter \<open>SupportedIntervals\<close>, in the order the \<open>range\<close> loop happens to
  visit them (a list without repetition, since they are the keys of a map).
\<close>

definition NewStandardIndicatorSet ::
  "Interval list \<Rightarrow> string \<Rightarrow> pointer \<Rightarrow> heap \<Rightarrow> StandardIndicatorSet \<times> heap" where
  "NewStandardIndicatorSet SupportedIntervals symbol st h =
     foldl (prewarm_interval st)
       (\<lparr>Symbol = symbol, SMA = Map.empty, EWMA = Map.empty, BOLL = Map.empty, store = st\<rparr>, h)
       SupportedIntervals"

subsection \<open>GetBOLL, GetSMA, GetEWMA\<close>

text \<open>
  Each function declares \<open>inc, ok := set.M[iw]\<close>; inside the \<open>if !ok\<close> block the short
  declaration \<open>inc := &indicator.T{...}\<close> declares a second variable (\<open>inc'\<close> below) in
  the scope of the block, and \<open>return inc\<close> after the block returns the first one.
  The result is the returned pointer, the set and the heap after the call.
\<close>

definition GetBOLL ::
  "StandardIndicatorSet \<Rightarrow> heap \<Rightarrow> IntervalWindow \<Rightarrow> float64 \<Rightarrow> pointer \<times> StandardIndicatorSet \<times> heap" where
  "GetBOLL s h iw bandWidth =
     (let (inc, ok) = lookup_ok (BOLL s) iw in
      if \<not> ok then
        (let (inc', h) = new_BOLL \<lparr>BOLL_IntervalWindow = iw, BOLL_K = bandWidth\<rparr> h;
             h = Bind (BOLL_ref inc') (store s) h;
             s = s\<lparr>BOLL := (BOLL s)(iw \<mapsto> inc')\<rparr>
         in (inc, s, h))
      else (inc, s, h))"

definition GetSMA ::
  "StandardIndicatorSet \<Rightarrow> heap \<Rightarrow> IntervalWindow \<Rightarrow> pointer \<times> StandardIndicatorSet \<times> heap" where
  "GetSMA s h iw =
     (let (inc, ok) = lookup_ok (SMA s) iw in
      if \<not> ok then
        (let (inc', h) = new_SMA \<lparr>SMA_IntervalWindow = iw\<rparr> h;
             h = Bind (SMA_ref inc') (store s) h;
             s = s\<lparr>SMA := (SMA s)(iw \<mapsto> inc')\<rparr>
         in (inc, s, h))
      else (inc, s, h))"

definition GetEWMA ::
  "StandardIndicatorSet \<Rightarrow> heap \<Rightarrow> IntervalWindow \<Rightarrow> pointer \<times> StandardIndicatorSet \<times> heap" where
  "GetEWMA s h iw =
     (let (inc, ok) = lookup_ok (EWMA s) iw in
      if \<not> ok then
        (let (inc', h) = new_EWMA \<lparr>EWMA_IntervalWindow = iw\<rparr> h;
             h = Bind (EWMA_ref inc') (store s) h;
             s = s\<lparr>EWMA := (EWMA s)(iw \<mapsto> inc')\<rparr>
         in (inc, s, h))
      else (inc, s, h))"

section \<open>The session registry\<close>

text \<open>
  \<open>types.Subscription\<close> is a comparable struct; \<open>types.Channel\<close> is a string type, and
  the type of the options, \<open>types.SubscribeOptions\<close>, is a parameter.
\<close>

record 'o Subscription =
  Subscription_Channel :: string
  Subscription_Symbol :: string
  Subscription_Options :: 'o

text \<open>
  \<open>ExchangeSession\<close>. The types \<open>types.Market\<close> and \<open>types.Trade\<close> are the parameters
  \<open>'m\<close> and \<open>'t\<close>. The embedded \<open>Notifiability\<close>, the account, the stream and the
  exchange are values of types declared elsewhere, which no function of this file reads
  after construction: they are opaque values of a type \<open>'x\<close>. The map
  \<open>loadedSymbols\<close> has values of the empty struct type.
\<close>

record ('o, 'm, 't, 'x) ExchangeSession =
  Notifiability :: 'x
  Name :: string
  Account :: 'x
  Stream :: 'x
  Subscriptions :: "'o Subscription \<rightharpoonup> 'o Subscription"
  Exchange :: 'x
  markets :: "string \<rightharpoonup> 'm"
  startPrices :: "string \<rightharpoonup> float64"
  lastPrices :: "string \<rightharpoonup> float64"
  Trades :: "string \<rightharpoonup> 't list"
  marketDataStores :: "string \<rightharpoonup> pointer"
  standardIndicatorSets :: "string \<rightharpoonup> pointer"
  loadedSymbols :: "string \<rightharpoonup> unit"

text \<open>
  Sessions live in a heap of their own and are used through \<open>*ExchangeSession\<close>
  pointers. A method called on a nil receiver panics when it reads a field; Go has no
  other invalid pointer, and the model treats an address beyond the heap the same way.
\<close>

datatype panic = NilPointerDereference

definition deref :: "'a list \<Rightarrow> pointer \<Rightarrow> panic + 'a" where
  "deref objs p =
     (case p of
        None \<Rightarrow> Inl NilPointerDereference
      | Some a \<Rightarrow> if a < length objs then Inr (objs ! a) else Inl NilPointerDereference)"

text \<open>
  \<open>NewExchangeSession\<close>: the routers of the \<open>Notifiability\<close>, the empty account and the
  stream returned by \<open>exchange.NewStream()\<close> are made by code that is not in the
  source, and are parameters. The result is the pointer to the new session and the
  heap that holds it.
\<close>

definition NewExchangeSession ::
  "'x \<Rightarrow> 'x \<Rightarrow> 'x \<Rightarrow> ('o, 'm, 't, 'x) ExchangeSession list \<Rightarrow> string \<Rightarrow> 'x \<Rightarrow>
   pointer \<times> ('o, 'm, 't, 'x) ExchangeSession list" where
  "NewExchangeSession notifiability account stream sessions name exchange =
     (Some (length sessions),
      sessions @
      [\<lparr>Notifiability = notifiability,
        Name = name,
        Account = account,
        Stream = stream,
        Subscriptions = Map.empty,
        Exchange = exchange,
        markets = Map.empty,
        startPrices = Map.empty,
        lastPrices = Map.empty,
        Trades = Map.empty,
        marketDataStores = Map.empty,
        standardIndicatorSets = Map.empty,
        loadedSymbols = Map.empty\<rparr>])"

text \<open>
  The comma-ok map read \<open>v, ok = m[k]\<close> for any value type: the zero value of the type
  and false when the key is absent.
\<close>

definition comma_ok :: "'v \<Rightarrow> ('k \<rightharpoonup> 'v) \<Rightarrow> 'k \<Rightarrow> 'v \<times> bool" where
  "comma_ok zero m k = (case m k of None \<Rightarrow> (zero, False) | Some v \<Rightarrow> (v, True))"

text \<open>
  The five accessors. The zero value of a pointer is nil, that of a \<open>float64\<close> is
  \<open>0.0\<close>; the zero value of \<open>types.Market\<close> is the parameter \<open>zero_Market\<close>.
\<close>

definition StandardIndicatorSet ::
  "('o, 'm, 't, 'x) ExchangeSession list \<Rightarrow> pointer \<Rightarrow> string \<Rightarrow> panic + (pointer \<times> bool)" where
  "StandardIndicatorSet sessions p symbol =
     (case deref sessions p of
        Inl e \<Rightarrow> Inl e
      | Inr session \<Rightarrow> Inr (comma_ok None (standardIndicatorSets session) symbol))"

definition MarketDataStore ::
  "('o, 'm, 't, 'x) ExchangeSession list \<Rightarrow> pointer \<Rightarrow> string \<Rightarrow> panic + (pointer \<times> bool)" where
  "MarketDataStore sessions p symbol =
     (case deref sessions p of
        Inl e \<Rightarrow> Inl e
      | Inr session \<Rightarrow> Inr (comma_ok None (marketDataStores session) symbol))"

definition StartPrice ::
  "('o, 'm, 't, 'x) ExchangeSession list \<Rightarrow> pointer \<Rightarrow> string \<Rightarrow> panic + (float64 \<times> bool)" where
  "StartPrice sessions p symbol =
     (case deref sessions p of
        Inl e \<Rightarrow> Inl e
      | Inr session \<Rightarrow> Inr (comma_ok 0 (startPrices session) symbol))"

definition LastPrice ::
  "('o, 'm, 't, 'x) ExchangeSession list \<Rightarrow> pointer \<Rightarrow> string \<Rightarrow> panic + (float64 \<times> bool)" where
  "LastPrice sessions p symbol =
     (case deref sessions p of
        Inl e \<Rightarrow> Inl e
      | Inr session \<Rightarrow> Inr (comma_ok 0 (lastPrices session) symbol))"

definition Market ::
  "'m \<Rightarrow> ('o, 'm, 't, 'x) ExchangeSession list \<Rightarrow> pointer \<Rightarrow> string \<Rightarrow> panic + ('m \<times> bool)" where
  "Market zero_Market sessions p symbol =
     (case deref sessions p of
        Inl e \<Rightarrow> Inl e
      | Inr session \<Rightarrow> Inr (comma_ok zero_Market (markets session) symbol))"

text \<open>
  \<open>Subscribe\<close> updates the session the receiver points to, in place, and returns the
  receiver.
\<close>

definition Subscribe ::
  "('o, 'm, 't, 'x) ExchangeSession list \<Rightarrow> pointer \<Rightarrow> string \<Rightarrow> string \<Rightarrow> 'o \<Rightarrow>
   panic + (pointer \<times> ('o, 'm, 't, 'x) ExchangeSession list)" where
  "Subscribe sessions p channel symbol options =
     (case p of
        None \<Rightarrow> Inl NilPointerDereference
      | Some a \<Rightarrow>
          (case deref sessions p of
             Inl e \<Rightarrow> Inl e
           | Inr session \<Rightarrow>
               (let sub = \<lparr>Subscription_Channel = channel, Subscription_Symbol = symbol,
                           Subscription_Options = options\<rparr>;
                    session = session\<lparr>loadedSymbols := (loadedSymbols session)(symbol \<mapsto> ())\<rparr>;
                    session = session\<lparr>Subscriptions := (Subscriptions session)(sub \<mapsto> sub)\<rparr>
                in Inr (p, sessions[a := session]))))"


section \<open>Sequences of calls, and the example of the spec\<close>

text \<open>A call of one of the three get-or-create methods, and a sequence of such calls on one registry.\<close>

datatype call = Call_GetSMA IntervalWindow | Call_GetEWMA IntervalWindow | Call_GetBOLL IntervalWindow float64

fun do_call :: "StandardIndicatorSet \<times> heap \<Rightarrow> call \<Rightarrow> StandardIndicatorSet \<times> heap" where
  "do_call sh (Call_GetSMA iw) = snd (GetSMA (fst sh) (snd sh) iw)"
| "do_call sh (Call_GetEWMA iw) = snd (GetEWMA (fst sh) (snd sh) iw)"
| "do_call sh (Call_GetBOLL iw bandWidth) = snd (GetBOLL (fst sh) (snd sh) iw bandWidth)"

definition run_calls :: "StandardIndicatorSet \<times> heap \<Rightarrow> call list \<Rightarrow> StandardIndicatorSet \<times> heap" where
  "run_calls = foldl do_call"

text \<open>
  A sequence of \<open>Subscribe\<close> calls on one session, each given by its channel, symbol and
  options; a panic ends the sequence.
\<close>

fun subscribe_all ::
  "('o, 'm, 't, 'x) ExchangeSession list \<Rightarrow> pointer \<Rightarrow> (string \<times> string \<times> 'o) list \<Rightarrow>
   panic + ('o, 'm, 't, 'x) ExchangeSession list" where
  "subscribe_all sessions p [] = Inr sessions"
| "subscribe_all sessions p ((channel, symbol, options) # rest) =
     (case Subscribe sessions p channel symbol options of
        Inl e \<Rightarrow> Inl e
      | Inr (q, sessions') \<Rightarrow> subscribe_all sessions' p rest)"

text \<open>
  The scenario of the spec: the registry of the symbol BTCUSDT with the supported
  intervals 1m and 1h, bound to a store at address 0, built in the empty heap.
\<close>

definition example_registry :: "StandardIndicatorSet \<times> heap" where
  "example_registry = NewStandardIndicatorSet [''1m'', ''1h''] ''BTCUSDT'' (Some 0) empty_heap"

text \<open>A session built in the empty session heap, with unit values for the opaque parts.\<close>

definition example_session :: "pointer \<times> (string, unit, unit, unit) ExchangeSession list" where
  "example_session = NewExchangeSession () () () [] ''binance'' ()"

section \<open>Specification vocabulary\<close>

text \<open>An indicator reference is allocated when its address is below the size of its heap.\<close>

fun allocated :: "heap \<Rightarrow> indicator_ref \<Rightarrow> bool" where
  "allocated h (SMA_ref a) = (a < length (sma_heap h))"
| "allocated h (EWMA_ref a) = (a < length (ewma_heap h))"
| "allocated h (BOLL_ref a) = (a < length (boll_heap h))"

text \<open>A well-formed heap: only allocated indicators have been bound.\<close>

definition heap_wf :: "heap \<Rightarrow> bool" where
  "heap_wf h = list_all (\<lambda>e. allocated h (fst e)) (bound h)"

text \<open>
  \<open>bound_once h r st\<close>: among all calls of \<open>Bind\<close> so far exactly one has the receiver
  \<open>r\<close>, and its argument was the store \<open>st\<close>.
\<close>

definition bound_once :: "heap \<Rightarrow> indicator_ref \<Rightarrow> pointer \<Rightarrow> bool" where
  "bound_once h r st = (filter (\<lambda>e. fst e = r) (bound h) = [(r, st)])"

text \<open>
  The invariant of a registry: every entry of its three maps is the address of an
  allocated indicator whose key is the entry's key and which has been bound exactly
  once, to the registry's store.
\<close>

definition set_inv :: "StandardIndicatorSet \<Rightarrow> heap \<Rightarrow> bool" where
  "set_inv s h =
     ((\<forall>iw a. SMA s iw = Some a \<longrightarrow>
         a < length (sma_heap h) \<and> SMA_IntervalWindow (sma_heap h ! a) = iw \<and>
         bound_once h (SMA_ref a) (store s)) \<and>
      (\<forall>iw a. EWMA s iw = Some a \<longrightarrow>
         a < length (ewma_heap h) \<and> EWMA_IntervalWindow (ewma_heap h ! a) = iw \<and>
         bound_once h (EWMA_ref a) (store s)) \<and>
      (\<forall>iw a. BOLL s iw = Some a \<longrightarrow>
         a < length (boll_heap h) \<and> BOLL_IntervalWindow (boll_heap h ! a) = iw \<and>
         bound_once h (BOLL_ref a) (store s)))"

text \<open>
  The block the source repeats for each family: allocate an indicator for the key,
  register it with the store, store its address under the key.
\<close>

definition add_SMA ::
  "pointer \<Rightarrow> IntervalWindow \<Rightarrow> StandardIndicatorSet \<times> heap \<Rightarrow> StandardIndicatorSet \<times> heap" where
  "add_SMA st iw sh =
     (fst sh\<lparr>SMA := (SMA (fst sh))(iw \<mapsto> length (sma_heap (snd sh)))\<rparr>,
      snd sh\<lparr>sma_heap := sma_heap (snd sh) @ [\<lparr>SMA_IntervalWindow = iw\<rparr>],
             bound := bound (snd sh) @ [(SMA_ref (length (sma_heap (snd sh))), st)]\<rparr>)"

definition add_EWMA ::
  "pointer \<Rightarrow> IntervalWindow \<Rightarrow> StandardIndicatorSet \<times> heap \<Rightarrow> StandardIndicatorSet \<times> heap" where
  "add_EWMA st iw sh =
     (fst sh\<lparr>EWMA := (EWMA (fst sh))(iw \<mapsto> length (ewma_heap (snd sh)))\<rparr>,
      snd sh\<lparr>ewma_heap := ewma_heap (snd sh) @ [\<lparr>EWMA_IntervalWindow = iw\<rparr>],
             bound := bound (snd sh) @ [(EWMA_ref (length (ewma_heap (snd sh))), st)]\<rparr>)"

definition add_BOLL ::
  "pointer \<Rightarrow> IntervalWindow \<Rightarrow> float64 \<Rightarrow> StandardIndicatorSet \<times> heap \<Rightarrow> StandardIndicatorSet \<times> heap" where
  "add_BOLL st iw k sh =
     (fst sh\<lparr>BOLL := (BOLL (fst sh))(iw \<mapsto> length (boll_heap (snd sh)))\<rparr>,
      snd sh\<lparr>boll_heap := boll_heap (snd sh) @ [\<lparr>BOLL_IntervalWindow = iw, BOLL_K = k\<rparr>],
             bound := bound (snd sh) @ [(BOLL_ref (length (boll_heap (snd sh))), st)]\<rparr>)"

text \<open>The registry invariant together with the well-formedness of the heap.\<close>

definition reg_inv :: "StandardIndicatorSet \<times> heap \<Rightarrow> bool" where
  "reg_inv sh = (heap_wf (snd sh) \<and> set_inv (fst sh) (snd sh))"


text \<open>
  \<open>extends sh sh'\<close>: the registry and heap \<open>sh'\<close> keep everything of \<open>sh\<close>: every map
  entry, the store and the symbol of the registry, and every object and registration
  of the heap, at the same place.
\<close>

definition extends :: "StandardIndicatorSet \<times> heap \<Rightarrow> StandardIndicatorSet \<times> heap \<Rightarrow> bool" where
  "extends sh sh' =
     (SMA (fst sh) \<subseteq>\<^sub>m SMA (fst sh') \<and> EWMA (fst sh) \<subseteq>\<^sub>m EWMA (fst sh') \<and>
      BOLL (fst sh) \<subseteq>\<^sub>m BOLL (fst sh') \<and>
      store (fst sh') = store (fst sh) \<and> Symbol (fst sh') = Symbol (fst sh) \<and>
      prefix (sma_heap (snd sh)) (sma_heap (snd sh')) \<and>
      prefix (ewma_heap (snd sh)) (ewma_heap (snd sh')) \<and>
      prefix (boll_heap (snd sh)) (boll_heap (snd sh')) \<and>
      prefix (bound (snd sh)) (bound (snd sh')))"

definition example_subscribed :: "panic + (pointer \<times> (string, unit, unit, unit) ExchangeSession list)" where
  "example_subscribed = Subscribe (snd example_session) (fst example_session) ''kline'' ''BTCUSDT'' ''1m''"

text \<open>
  The session of the example once the sub-objects of BTCUSDT exist: the maps of the
  session hold a market, a last price, a market data store and an indicator registry
  for the symbol.
\<close>

definition example_loaded_session :: "(string, unit, unit, unit) ExchangeSession" where
  "example_loaded_session =
     (snd example_session ! 0)
       \<lparr>markets := [''BTCUSDT'' \<mapsto> ()],
        lastPrices := [''BTCUSDT'' \<mapsto> float64_2],
        marketDataStores := [''BTCUSDT'' \<mapsto> Some 0],
        standardIndicatorSets := [''BTCUSDT'' \<mapsto> Some 0]\<rparr>"

section \<open>Lemmas about the registry\<close>

lemma prewarm_window_add:
  "prewarm_window st i sh w =
     add_EWMA st \<lparr>Interval = i, Window = w\<rparr> (add_SMA st \<lparr>Interval = i, Window = w\<rparr> sh)"
  by (cases sh) (simp add: prewarm_window_def new_SMA_def new_EWMA_def Bind_def Let_def add_SMA_def add_EWMA_def)

lemma prewarm_interval_add:
  "prewarm_interval st sh i =
     add_BOLL st \<lparr>Interval = i, Window = 21\<rparr> float64_2
       (prewarm_window st i (prewarm_window st i (prewarm_window st i sh 7) 25) 99)"
  by (cases "prewarm_window st i (prewarm_window st i (prewarm_window st i sh 7) 25) 99")
     (simp add: prewarm_interval_def new_BOLL_def Bind_def Let_def add_BOLL_def)

lemma GetSMA_hit: "SMA s iw = Some a \<Longrightarrow> GetSMA s h iw = (Some a, s, h)"
  by (simp add: GetSMA_def lookup_ok_def)

lemma GetEWMA_hit: "EWMA s iw = Some a \<Longrightarrow> GetEWMA s h iw = (Some a, s, h)"
  by (simp add: GetEWMA_def lookup_ok_def)

lemma GetBOLL_hit: "BOLL s iw = Some a \<Longrightarrow> GetBOLL s h iw k = (Some a, s, h)"
  by (simp add: GetBOLL_def lookup_ok_def)

lemma GetSMA_miss: "SMA s iw = None \<Longrightarrow> GetSMA s h iw = (None, add_SMA (store s) iw (s, h))"
  by (simp add: GetSMA_def lookup_ok_def new_SMA_def Bind_def add_SMA_def)

lemma GetEWMA_miss: "EWMA s iw = None \<Longrightarrow> GetEWMA s h iw = (None, add_EWMA (store s) iw (s, h))"
  by (simp add: GetEWMA_def lookup_ok_def new_EWMA_def Bind_def add_EWMA_def)

lemma GetBOLL_miss: "BOLL s iw = None \<Longrightarrow> GetBOLL s h iw k = (None, add_BOLL (store s) iw k (s, h))"
  by (simp add: GetBOLL_def lookup_ok_def new_BOLL_def Bind_def add_BOLL_def)

lemma filter_fresh:
  "list_all (\<lambda>e. allocated h (fst e)) xs \<Longrightarrow> \<not> allocated h r \<Longrightarrow> filter (\<lambda>e. fst e = r) xs = []"
  by (induction xs) auto

lemma heap_wf_fresh: "heap_wf h \<Longrightarrow> \<not> allocated h r \<Longrightarrow> filter (\<lambda>e. fst e = r) (bound h) = []"
  unfolding heap_wf_def by (rule filter_fresh)

lemma allocated_mono:
  "allocated h r \<Longrightarrow> length (sma_heap h) \<le> length (sma_heap h') \<Longrightarrow>
   length (ewma_heap h) \<le> length (ewma_heap h') \<Longrightarrow>
   length (boll_heap h) \<le> length (boll_heap h') \<Longrightarrow> allocated h' r"
  by (cases r) auto


lemma allocated_grow:
  "allocated h r \<Longrightarrow> allocated (h\<lparr>sma_heap := sma_heap h @ xs, bound := b\<rparr>) r"
  "allocated h r \<Longrightarrow> allocated (h\<lparr>ewma_heap := ewma_heap h @ ys, bound := b\<rparr>) r"
  "allocated h r \<Longrightarrow> allocated (h\<lparr>boll_heap := boll_heap h @ zs, bound := b\<rparr>) r"
  by (cases r; simp)+

lemma add_SMA_wf: "heap_wf (snd sh) \<Longrightarrow> heap_wf (snd (add_SMA st iw sh))"
  by (auto simp: heap_wf_def add_SMA_def list_all_iff intro: allocated_grow)

lemma add_EWMA_wf: "heap_wf (snd sh) \<Longrightarrow> heap_wf (snd (add_EWMA st iw sh))"
  by (auto simp: heap_wf_def add_EWMA_def list_all_iff intro: allocated_grow)

lemma add_BOLL_wf: "heap_wf (snd sh) \<Longrightarrow> heap_wf (snd (add_BOLL st iw k sh))"
  by (auto simp: heap_wf_def add_BOLL_def list_all_iff intro: allocated_grow)

lemma set_invD_SMA:
  "set_inv s h \<Longrightarrow> SMA s iw = Some a \<Longrightarrow>
   a < length (sma_heap h) \<and> SMA_IntervalWindow (sma_heap h ! a) = iw \<and>
   bound_once h (SMA_ref a) (store s)"
  by (simp add: set_inv_def)

lemma set_invD_EWMA:
  "set_inv s h \<Longrightarrow> EWMA s iw = Some a \<Longrightarrow>
   a < length (ewma_heap h) \<and> EWMA_IntervalWindow (ewma_heap h ! a) = iw \<and>
   bound_once h (EWMA_ref a) (store s)"
  by (simp add: set_inv_def)

lemma set_invD_BOLL:
  "set_inv s h \<Longrightarrow> BOLL s iw = Some a \<Longrightarrow>
   a < length (boll_heap h) \<and> BOLL_IntervalWindow (boll_heap h ! a) = iw \<and>
   bound_once h (BOLL_ref a) (store s)"
  by (simp add: set_inv_def)

lemma add_SMA_set_inv:
  assumes "heap_wf (snd sh)" "set_inv (fst sh) (snd sh)" "store (fst sh) = st"
  shows "set_inv (fst (add_SMA st iw sh)) (snd (add_SMA st iw sh))"
proof -
  note fresh = heap_wf_fresh[OF assms(1), of "SMA_ref (length (sma_heap (snd sh)))"]
  have "\<And>key a. (SMA (fst (add_SMA st iw sh))) key = Some a \<Longrightarrow>
         a < length (sma_heap (snd (add_SMA st iw sh))) \<and>
         SMA_IntervalWindow (sma_heap (snd (add_SMA st iw sh)) ! a) = key \<and>
         bound_once (snd (add_SMA st iw sh)) (SMA_ref a) (store (fst (add_SMA st iw sh)))"
    using fresh assms(3) set_invD_SMA[OF assms(2)]
    by (fastforce simp: add_SMA_def bound_once_def nth_append split: if_splits)
  moreover have "\<And>key a. (EWMA (fst (add_SMA st iw sh))) key = Some a \<Longrightarrow>
         a < length (ewma_heap (snd (add_SMA st iw sh))) \<and>
         EWMA_IntervalWindow (ewma_heap (snd (add_SMA st iw sh)) ! a) = key \<and>
         bound_once (snd (add_SMA st iw sh)) (EWMA_ref a) (store (fst (add_SMA st iw sh)))"
    using fresh assms(3) set_invD_EWMA[OF assms(2)]
    by (fastforce simp: add_SMA_def bound_once_def nth_append split: if_splits)
  moreover have "\<And>key a. (BOLL (fst (add_SMA st iw sh))) key = Some a \<Longrightarrow>
         a < length (boll_heap (snd (add_SMA st iw sh))) \<and>
         BOLL_IntervalWindow (boll_heap (snd (add_SMA st iw sh)) ! a) = key \<and>
         bound_once (snd (add_SMA st iw sh)) (BOLL_ref a) (store (fst (add_SMA st iw sh)))"
    using fresh assms(3) set_invD_BOLL[OF assms(2)]
    by (fastforce simp: add_SMA_def bound_once_def nth_append split: if_splits)
  ultimately show ?thesis
    unfolding set_inv_def by blast
qed

lemma add_EWMA_set_inv:
  assumes "heap_wf (snd sh)" "set_inv (fst sh) (snd sh)" "store (fst sh) = st"
  shows "set_inv (fst (add_EWMA st iw sh)) (snd (add_EWMA st iw sh))"
proof -
  note fresh = heap_wf_fresh[OF assms(1), of "EWMA_ref (length (ewma_heap (snd sh)))"]
  have "\<And>key a. (SMA (fst (add_EWMA st iw sh))) key = Some a \<Longrightarrow>
         a < length (sma_heap (snd (add_EWMA st iw sh))) \<and>
         SMA_IntervalWindow (sma_heap (snd (add_EWMA st iw sh)) ! a) = key \<and>
         bound_once (snd (add_EWMA st iw sh)) (SMA_ref a) (store (fst (add_EWMA st iw sh)))"
    using fresh assms(3) set_invD_SMA[OF assms(2)]
    by (fastforce simp: add_EWMA_def bound_once_def nth_append split: if_splits)
  moreover have "\<And>key a. (EWMA (fst (add_EWMA st iw sh))) key = Some a \<Longrightarrow>
         a < length (ewma_heap (snd (add_EWMA st iw sh))) \<and>
         EWMA_IntervalWindow (ewma_heap (snd (add_EWMA st iw sh)) ! a) = key \<and>
         bound_once (snd (add_EWMA st iw sh)) (EWMA_ref a) (store (fst (add_EWMA st iw sh)))"
    using fresh assms(3) set_invD_EWMA[OF assms(2)]
    by (fastforce simp: add_EWMA_def bound_once_def nth_append split: if_splits)
  moreover have "\<And>key a. (BOLL (fst (add_EWMA st iw sh))) key = Some a \<Longrightarrow>
         a < length (boll_heap (snd (add_EWMA st iw sh))) \<and>
         BOLL_IntervalWindow (boll_heap (snd (add_EWMA st iw sh)) ! a) = key \<and>
         bound_once (snd (add_EWMA st iw sh)) (BOLL_ref a) (store (fst (add_EWMA st iw sh)))"
    using fresh assms(3) set_invD_BOLL[OF assms(2)]
    by (fastforce simp: add_EWMA_def bound_once_def nth_append split: if_splits)
  ultimately show ?thesis
    unfolding set_inv_def by blast
qed

lemma add_BOLL_set_inv:
  assumes "heap_wf (snd sh)" "set_inv (fst sh) (snd sh)" "store (fst sh) = st"
  shows "set_inv (fst (add_BOLL st iw k sh)) (snd (add_BOLL st iw k sh))"
proof -
  note fresh = heap_wf_fresh[OF assms(1), of "BOLL_ref (length (boll_heap (snd sh)))"]
  have "\<And>key a. (SMA (fst (add_BOLL st iw k sh))) key = Some a \<Longrightarrow>
         a < length (sma_heap (snd (add_BOLL st iw k sh))) \<and>
         SMA_IntervalWindow (sma_heap (snd (add_BOLL st iw k sh)) ! a) = key \<and>
         bound_once (snd (add_BOLL st iw k sh)) (SMA_ref a) (store (fst (add_BOLL st iw k sh)))"
    using fresh assms(3) set_invD_SMA[OF assms(2)]
    by (fastforce simp: add_BOLL_def bound_once_def nth_append split: if_splits)
  moreover have "\<And>key a. (EWMA (fst (add_BOLL st iw k sh))) key = Some a \<Longrightarrow>
         a < length (ewma_heap (snd (add_BOLL st iw k sh))) \<and>
         EWMA_IntervalWindow (ewma_heap (snd (add_BOLL st iw k sh)) ! a) = key \<and>
         bound_once (snd (add_BOLL st iw k sh)) (EWMA_ref a) (store (fst (add_BOLL st iw k sh)))"
    using fresh assms(3) set_invD_EWMA[OF assms(2)]
    by (fastforce simp: add_BOLL_def bound_once_def nth_append split: if_splits)
  moreover have "\<And>key a. (BOLL (fst (add_BOLL st iw k sh))) key = Some a \<Longrightarrow>
         a < length (boll_heap (snd (add_BOLL st iw k sh))) \<and>
         BOLL_IntervalWindow (boll_heap (snd (add_BOLL st iw k sh)) ! a) = key \<and>
         bound_once (snd (add_BOLL st iw k sh)) (BOLL_ref a) (store (fst (add_BOLL st iw k sh)))"
    using fresh assms(3) set_invD_BOLL[OF assms(2)]
    by (fastforce simp: add_BOLL_def bound_once_def nth_append split: if_splits)
  ultimately show ?thesis
    unfolding set_inv_def by blast
qed

lemma add_SMA_fields [simp]:
  "SMA (fst (add_SMA st iw sh)) = (SMA (fst sh))(iw \<mapsto> length (sma_heap (snd sh)))"
  "EWMA (fst (add_SMA st iw sh)) = EWMA (fst sh)"
  "BOLL (fst (add_SMA st iw sh)) = BOLL (fst sh)"
  "store (fst (add_SMA st iw sh)) = store (fst sh)"
  "Symbol (fst (add_SMA st iw sh)) = Symbol (fst sh)"
  "sma_heap (snd (add_SMA st iw sh)) = sma_heap (snd sh) @ [\<lparr>SMA_IntervalWindow = iw\<rparr>]"
  "ewma_heap (snd (add_SMA st iw sh)) = ewma_heap (snd sh)"
  "boll_heap (snd (add_SMA st iw sh)) = boll_heap (snd sh)"
  "bound (snd (add_SMA st iw sh)) = bound (snd sh) @ [(SMA_ref (length (sma_heap (snd sh))), st)]"
  by (simp_all add: add_SMA_def)

lemma add_EWMA_fields [simp]:
  "SMA (fst (add_EWMA st iw sh)) = SMA (fst sh)"
  "EWMA (fst (add_EWMA st iw sh)) = (EWMA (fst sh))(iw \<mapsto> length (ewma_heap (snd sh)))"
  "BOLL (fst (add_EWMA st iw sh)) = BOLL (fst sh)"
  "store (fst (add_EWMA st iw sh)) = store (fst sh)"
  "Symbol (fst (add_EWMA st iw sh)) = Symbol (fst sh)"
  "sma_heap (snd (add_EWMA st iw sh)) = sma_heap (snd sh)"
  "ewma_heap (snd (add_EWMA st iw sh)) = ewma_heap (snd sh) @ [\<lparr>EWMA_IntervalWindow = iw\<rparr>]"
  "boll_heap (snd (add_EWMA st iw sh)) = boll_heap (snd sh)"
  "bound (snd (add_EWMA st iw sh)) = bound (snd sh) @ [(EWMA_ref (length (ewma_heap (snd sh))), st)]"
  by (simp_all add: add_EWMA_def)

lemma add_BOLL_fields [simp]:
  "SMA (fst (add_BOLL st iw k sh)) = SMA (fst sh)"
  "EWMA (fst (add_BOLL st iw k sh)) = EWMA (fst sh)"
  "BOLL (fst (add_BOLL st iw k sh)) = (BOLL (fst sh))(iw \<mapsto> length (boll_heap (snd sh)))"
  "store (fst (add_BOLL st iw k sh)) = store (fst sh)"
  "Symbol (fst (add_BOLL st iw k sh)) = Symbol (fst sh)"
  "sma_heap (snd (add_BOLL st iw k sh)) = sma_heap (snd sh)"
  "ewma_heap (snd (add_BOLL st iw k sh)) = ewma_heap (snd sh)"
  "boll_heap (snd (add_BOLL st iw k sh)) = boll_heap (snd sh) @ [\<lparr>BOLL_IntervalWindow = iw, BOLL_K = k\<rparr>]"
  "bound (snd (add_BOLL st iw k sh)) = bound (snd sh) @ [(BOLL_ref (length (boll_heap (snd sh))), st)]"
  by (simp_all add: add_BOLL_def)

lemma add_SMA_reg_inv: "reg_inv sh \<Longrightarrow> store (fst sh) = st \<Longrightarrow> reg_inv (add_SMA st iw sh)"
  unfolding reg_inv_def by (simp add: add_SMA_wf add_SMA_set_inv)

lemma add_EWMA_reg_inv: "reg_inv sh \<Longrightarrow> store (fst sh) = st \<Longrightarrow> reg_inv (add_EWMA st iw sh)"
  unfolding reg_inv_def by (simp add: add_EWMA_wf add_EWMA_set_inv)

lemma add_BOLL_reg_inv: "reg_inv sh \<Longrightarrow> store (fst sh) = st \<Longrightarrow> reg_inv (add_BOLL st iw k sh)"
  unfolding reg_inv_def by (simp add: add_BOLL_wf add_BOLL_set_inv)

lemma prewarm_window_reg_inv:
  "reg_inv sh \<Longrightarrow> store (fst sh) = st \<Longrightarrow> reg_inv (prewarm_window st i sh w)"
  by (simp add: prewarm_window_add add_SMA_reg_inv add_EWMA_reg_inv)

lemma prewarm_window_store [simp]:
  "store (fst (prewarm_window st i sh w)) = store (fst sh)"
  "Symbol (fst (prewarm_window st i sh w)) = Symbol (fst sh)"
  by (simp_all add: prewarm_window_add)

lemma prewarm_interval_store [simp]:
  "store (fst (prewarm_interval st sh i)) = store (fst sh)"
  "Symbol (fst (prewarm_interval st sh i)) = Symbol (fst sh)"
  by (simp_all add: prewarm_interval_add)

lemma prewarm_interval_reg_inv:
  "reg_inv sh \<Longrightarrow> store (fst sh) = st \<Longrightarrow> reg_inv (prewarm_interval st sh i)"
  by (simp add: prewarm_interval_add add_BOLL_reg_inv prewarm_window_reg_inv)

lemma foldl_prewarm_store [simp]:
  "store (fst (foldl (prewarm_interval st) sh ivs)) = store (fst sh)"
  "Symbol (fst (foldl (prewarm_interval st) sh ivs)) = Symbol (fst sh)"
  by (induction ivs arbitrary: sh) simp_all

lemma foldl_prewarm_reg_inv:
  "reg_inv sh \<Longrightarrow> store (fst sh) = st \<Longrightarrow> reg_inv (foldl (prewarm_interval st) sh ivs)"
  by (induction ivs arbitrary: sh) (simp_all add: prewarm_interval_reg_inv)

lemma NewStandardIndicatorSet_store [simp]:
  "store (fst (NewStandardIndicatorSet ivs symbol st h)) = st"
  "Symbol (fst (NewStandardIndicatorSet ivs symbol st h)) = symbol"
  by (simp_all add: NewStandardIndicatorSet_def)

lemma NewStandardIndicatorSet_reg_inv:
  "heap_wf h \<Longrightarrow> reg_inv (NewStandardIndicatorSet ivs symbol st h)"
  unfolding NewStandardIndicatorSet_def
  by (rule foldl_prewarm_reg_inv) (simp_all add: reg_inv_def set_inv_def)

lemma prewarm_interval_maps:
  "SMA (fst (prewarm_interval st sh i)) =
     (SMA (fst sh))(\<lparr>Interval = i, Window = 7\<rparr> \<mapsto> length (sma_heap (snd sh)),
                    \<lparr>Interval = i, Window = 25\<rparr> \<mapsto> length (sma_heap (snd sh)) + 1,
                    \<lparr>Interval = i, Window = 99\<rparr> \<mapsto> length (sma_heap (snd sh)) + 2)"
  "EWMA (fst (prewarm_interval st sh i)) =
     (EWMA (fst sh))(\<lparr>Interval = i, Window = 7\<rparr> \<mapsto> length (ewma_heap (snd sh)),
                    \<lparr>Interval = i, Window = 25\<rparr> \<mapsto> length (ewma_heap (snd sh)) + 1,
                    \<lparr>Interval = i, Window = 99\<rparr> \<mapsto> length (ewma_heap (snd sh)) + 2)"
  "BOLL (fst (prewarm_interval st sh i)) =
     (BOLL (fst sh))(\<lparr>Interval = i, Window = 21\<rparr> \<mapsto> length (boll_heap (snd sh)))"
  by (simp_all add: prewarm_interval_add prewarm_window_add)

lemma prewarm_interval_heaps:
  "sma_heap (snd (prewarm_interval st sh i)) =
     sma_heap (snd sh) @ map (\<lambda>w. \<lparr>SMA_IntervalWindow = \<lparr>Interval = i, Window = w\<rparr>\<rparr>) [7, 25, 99]"
  "ewma_heap (snd (prewarm_interval st sh i)) =
     ewma_heap (snd sh) @ map (\<lambda>w. \<lparr>EWMA_IntervalWindow = \<lparr>Interval = i, Window = w\<rparr>\<rparr>) [7, 25, 99]"
  "boll_heap (snd (prewarm_interval st sh i)) =
     boll_heap (snd sh) @ [\<lparr>BOLL_IntervalWindow = \<lparr>Interval = i, Window = 21\<rparr>, BOLL_K = float64_2\<rparr>]"
  "length (bound (snd (prewarm_interval st sh i))) = length (bound (snd sh)) + 7"
  by (simp_all add: prewarm_interval_add prewarm_window_add)

lemma iw_eq: "((iw :: IntervalWindow) = \<lparr>Interval = i, Window = w\<rparr>) = (Interval iw = i \<and> Window iw = w)"
  by (cases iw) auto

lemma prewarm_interval_dom:
  "dom (SMA (fst (prewarm_interval st sh i))) =
     dom (SMA (fst sh)) \<union> {iw. Interval iw = i \<and> Window iw \<in> {7, 25, 99}}"
  "dom (EWMA (fst (prewarm_interval st sh i))) =
     dom (EWMA (fst sh)) \<union> {iw. Interval iw = i \<and> Window iw \<in> {7, 25, 99}}"
  "dom (BOLL (fst (prewarm_interval st sh i))) =
     dom (BOLL (fst sh)) \<union> {iw. Interval iw = i \<and> Window iw = 21}"
  unfolding prewarm_interval_maps by (auto simp: iw_eq)

lemma foldl_prewarm_dom_SMA:
  "dom (SMA (fst (foldl (prewarm_interval st) sh ivs))) =
     dom (SMA (fst sh)) \<union> {iw. Interval iw \<in> set ivs \<and> Window iw \<in> {7, 25, 99}}"
  by (induction ivs arbitrary: sh) (auto simp: prewarm_interval_dom)

lemma foldl_prewarm_dom_EWMA:
  "dom (EWMA (fst (foldl (prewarm_interval st) sh ivs))) =
     dom (EWMA (fst sh)) \<union> {iw. Interval iw \<in> set ivs \<and> Window iw \<in> {7, 25, 99}}"
  by (induction ivs arbitrary: sh) (auto simp: prewarm_interval_dom)

lemma foldl_prewarm_dom_BOLL:
  "dom (BOLL (fst (foldl (prewarm_interval st) sh ivs))) =
     dom (BOLL (fst sh)) \<union> {iw. Interval iw \<in> set ivs \<and> Window iw = 21}"
  by (induction ivs arbitrary: sh) (auto simp: prewarm_interval_dom)

lemma foldl_prewarm_lengths:
  "length (sma_heap (snd (foldl (prewarm_interval st) sh ivs))) = length (sma_heap (snd sh)) + 3 * length ivs"
  "length (ewma_heap (snd (foldl (prewarm_interval st) sh ivs))) = length (ewma_heap (snd sh)) + 3 * length ivs"
  "length (boll_heap (snd (foldl (prewarm_interval st) sh ivs))) = length (boll_heap (snd sh)) + length ivs"
  "length (bound (snd (foldl (prewarm_interval st) sh ivs))) = length (bound (snd sh)) + 7 * length ivs"
  by (induction ivs arbitrary: sh) (simp_all add: prewarm_interval_heaps)


lemma foldl_prewarm_fresh_SMA:
  "n \<le> length (sma_heap (snd sh)) \<Longrightarrow> (\<forall>iw a. SMA (fst sh) iw = Some a \<longrightarrow> n \<le> a) \<Longrightarrow>
   (\<forall>iw a. SMA (fst (foldl (prewarm_interval st) sh ivs)) iw = Some a \<longrightarrow> n \<le> a)"
proof (induction ivs arbitrary: sh)
  case Nil
  then show ?case by simp
next
  case (Cons i ivs)
  have "n \<le> length (sma_heap (snd (prewarm_interval st sh i)))"
    using Cons.prems(1) by (simp add: prewarm_interval_heaps)
  moreover have "\<forall>iw a. SMA (fst (prewarm_interval st sh i)) iw = Some a \<longrightarrow> n \<le> a"
    using Cons.prems by (auto simp: prewarm_interval_maps split: if_splits)
  ultimately show ?case
    using Cons.IH [of "prewarm_interval st sh i"] by simp
qed

lemma foldl_prewarm_fresh_EWMA:
  "n \<le> length (ewma_heap (snd sh)) \<Longrightarrow> (\<forall>iw a. EWMA (fst sh) iw = Some a \<longrightarrow> n \<le> a) \<Longrightarrow>
   (\<forall>iw a. EWMA (fst (foldl (prewarm_interval st) sh ivs)) iw = Some a \<longrightarrow> n \<le> a)"
proof (induction ivs arbitrary: sh)
  case Nil
  then show ?case by simp
next
  case (Cons i ivs)
  have "n \<le> length (ewma_heap (snd (prewarm_interval st sh i)))"
    using Cons.prems(1) by (simp add: prewarm_interval_heaps)
  moreover have "\<forall>iw a. EWMA (fst (prewarm_interval st sh i)) iw = Some a \<longrightarrow> n \<le> a"
    using Cons.prems by (auto simp: prewarm_interval_maps split: if_splits)
  ultimately show ?case
    using Cons.IH [of "prewarm_interval st sh i"] by simp
qed

lemma foldl_prewarm_fresh_BOLL:
  "n \<le> length (boll_heap (snd sh)) \<Longrightarrow> (\<forall>iw a. BOLL (fst sh) iw = Some a \<longrightarrow> n \<le> a) \<Longrightarrow>
   (\<forall>iw a. BOLL (fst (foldl (prewarm_interval st) sh ivs)) iw = Some a \<longrightarrow> n \<le> a)"
proof (induction ivs arbitrary: sh)
  case Nil
  then show ?case by simp
next
  case (Cons i ivs)
  have "n \<le> length (boll_heap (snd (prewarm_interval st sh i)))"
    using Cons.prems(1) by (simp add: prewarm_interval_heaps)
  moreover have "\<forall>iw a. BOLL (fst (prewarm_interval st sh i)) iw = Some a \<longrightarrow> n \<le> a"
    using Cons.prems by (auto simp: prewarm_interval_maps split: if_splits)
  ultimately show ?case
    using Cons.IH [of "prewarm_interval st sh i"] by simp
qed

lemma foldl_prewarm_K:
  "(\<forall>iw a. BOLL (fst sh) iw = Some a \<longrightarrow>
      a < length (boll_heap (snd sh)) \<and> BOLL_K (boll_heap (snd sh) ! a) = float64_2) \<Longrightarrow>
   (\<forall>iw a. BOLL (fst (foldl (prewarm_interval st) sh ivs)) iw = Some a \<longrightarrow>
      a < length (boll_heap (snd (foldl (prewarm_interval st) sh ivs))) \<and>
      BOLL_K (boll_heap (snd (foldl (prewarm_interval st) sh ivs)) ! a) = float64_2)"
proof (induction ivs arbitrary: sh)
  case Nil
  then show ?case by simp
next
  case (Cons i ivs)
  have "\<forall>iw a. BOLL (fst (prewarm_interval st sh i)) iw = Some a \<longrightarrow>
      a < length (boll_heap (snd (prewarm_interval st sh i))) \<and>
      BOLL_K (boll_heap (snd (prewarm_interval st sh i)) ! a) = float64_2"
    using Cons.prems
    by (fastforce simp: prewarm_interval_maps prewarm_interval_heaps nth_append split: if_splits)
  then show ?case
    using Cons.IH [of "prewarm_interval st sh i"] by simp
qed

lemma foldl_prewarm_prefix:
  "prefix (sma_heap (snd sh)) (sma_heap (snd (foldl (prewarm_interval st) sh ivs)))"
  "prefix (ewma_heap (snd sh)) (ewma_heap (snd (foldl (prewarm_interval st) sh ivs)))"
  "prefix (boll_heap (snd sh)) (boll_heap (snd (foldl (prewarm_interval st) sh ivs)))"
  "prefix (bound (snd sh)) (bound (snd (foldl (prewarm_interval st) sh ivs)))"
proof (induction ivs arbitrary: sh)
  case Nil
  { case 1 show ?case by simp }
  { case 2 show ?case by simp }
  { case 3 show ?case by simp }
  { case 4 show ?case by simp }
next
  case (Cons i ivs)
  { case 1 show ?case
      using Cons.IH(1) [of "prewarm_interval st sh i"]
      by (auto simp: prewarm_interval_heaps elim: prefix_order.trans [rotated]) }
  { case 2 show ?case
      using Cons.IH(2) [of "prewarm_interval st sh i"]
      by (auto simp: prewarm_interval_heaps elim: prefix_order.trans [rotated]) }
  { case 3 show ?case
      using Cons.IH(3) [of "prewarm_interval st sh i"]
      by (auto simp: prewarm_interval_heaps elim: prefix_order.trans [rotated]) }
  { case 4 show ?case
      using Cons.IH(4) [of "prewarm_interval st sh i"]
      by (auto simp: prewarm_interval_add prewarm_window_add elim: prefix_order.trans [rotated]) }
qed

lemma card_keys:
  assumes "distinct ivs" "finite W"
  shows "card {iw :: IntervalWindow. Interval iw \<in> set ivs \<and> Window iw \<in> W} = length ivs * card W"
proof -
  have eq: "{iw :: IntervalWindow. Interval iw \<in> set ivs \<and> Window iw \<in> W} =
        (\<lambda>(i, w). \<lparr>Interval = i, Window = w\<rparr>) ` (set ivs \<times> W)"
    by (auto simp: image_iff iw_eq)
  have inj: "inj_on (\<lambda>(i, w). \<lparr>Interval = i, Window = w\<rparr>) (set ivs \<times> W)"
    by (auto simp: inj_on_def)
  show ?thesis
    unfolding eq using assms
    by (simp add: card_image [OF inj] card_cartesian_product distinct_card)
qed

lemma do_call_eq:
  "do_call sh (Call_GetSMA iw) =
     (if SMA (fst sh) iw = None then add_SMA (store (fst sh)) iw sh else sh)"
  "do_call sh (Call_GetEWMA iw) =
     (if EWMA (fst sh) iw = None then add_EWMA (store (fst sh)) iw sh else sh)"
  "do_call sh (Call_GetBOLL iw k) =
     (if BOLL (fst sh) iw = None then add_BOLL (store (fst sh)) iw k sh else sh)"
  by (auto simp: GetSMA_miss GetSMA_hit GetEWMA_miss GetEWMA_hit GetBOLL_miss GetBOLL_hit)

lemma extends_refl: "extends sh sh"
  by (simp add: extends_def)

lemma extends_trans: "extends sh1 sh2 \<Longrightarrow> extends sh2 sh3 \<Longrightarrow> extends sh1 sh3"
  unfolding extends_def
  by (auto intro: map_le_trans prefix_order.trans)

lemma add_extends:
  "SMA (fst sh) iw = None \<Longrightarrow> extends sh (add_SMA st iw sh)"
  "EWMA (fst sh) iw = None \<Longrightarrow> extends sh (add_EWMA st iw sh)"
  "BOLL (fst sh) iw = None \<Longrightarrow> extends sh (add_BOLL st iw k sh)"
  by (auto simp: extends_def map_le_def)

lemma do_call_extends: "extends sh (do_call sh c)"
  by (cases c) (simp_all add: do_call_eq add_extends extends_refl del: do_call.simps)

lemma run_calls_extends: "extends sh (run_calls sh cs)"
  unfolding run_calls_def
proof (induction cs arbitrary: sh)
  case Nil
  show ?case by (simp add: extends_refl)
next
  case (Cons c cs)
  show ?case
    using extends_trans [OF do_call_extends Cons.IH] by simp
qed

lemma do_call_reg_inv: "reg_inv sh \<Longrightarrow> reg_inv (do_call sh c)"
  by (cases c) (simp_all add: do_call_eq add_SMA_reg_inv add_EWMA_reg_inv add_BOLL_reg_inv del: do_call.simps)

lemma run_calls_reg_inv: "reg_inv sh \<Longrightarrow> reg_inv (run_calls sh cs)"
  unfolding run_calls_def
  by (induction cs arbitrary: sh) (simp_all add: do_call_reg_inv)

lemma extends_entry:
  "extends sh sh' \<Longrightarrow> SMA (fst sh) iw = Some a \<Longrightarrow> SMA (fst sh') iw = Some a"
  "extends sh sh' \<Longrightarrow> EWMA (fst sh) iw = Some a \<Longrightarrow> EWMA (fst sh') iw = Some a"
  "extends sh sh' \<Longrightarrow> BOLL (fst sh) iw = Some a \<Longrightarrow> BOLL (fst sh') iw = Some a"
  by (auto simp: extends_def map_le_def dom_def)

lemma extends_boll_nth:
  "extends sh sh' \<Longrightarrow> a < length (boll_heap (snd sh)) \<Longrightarrow>
   a < length (boll_heap (snd sh')) \<and> boll_heap (snd sh') ! a = boll_heap (snd sh) ! a"
  by (auto simp: extends_def prefix_def nth_append)

lemma extends_store: "extends sh sh' \<Longrightarrow> store (fst sh') = store (fst sh)"
  by (simp add: extends_def)

lemma reg_inv_SMA:
  "reg_inv sh \<Longrightarrow> SMA (fst sh) iw = Some a \<Longrightarrow>
   a < length (sma_heap (snd sh)) \<and> SMA_IntervalWindow (sma_heap (snd sh) ! a) = iw \<and>
   bound_once (snd sh) (SMA_ref a) (store (fst sh))"
  unfolding reg_inv_def using set_invD_SMA [of "fst sh" "snd sh" iw a] by blast

lemma reg_inv_EWMA:
  "reg_inv sh \<Longrightarrow> EWMA (fst sh) iw = Some a \<Longrightarrow>
   a < length (ewma_heap (snd sh)) \<and> EWMA_IntervalWindow (ewma_heap (snd sh) ! a) = iw \<and>
   bound_once (snd sh) (EWMA_ref a) (store (fst sh))"
  unfolding reg_inv_def using set_invD_EWMA [of "fst sh" "snd sh" iw a] by blast

lemma reg_inv_BOLL:
  "reg_inv sh \<Longrightarrow> BOLL (fst sh) iw = Some a \<Longrightarrow>
   a < length (boll_heap (snd sh)) \<and> BOLL_IntervalWindow (boll_heap (snd sh) ! a) = iw \<and>
   bound_once (snd sh) (BOLL_ref a) (store (fst sh))"
  unfolding reg_inv_def using set_invD_BOLL [of "fst sh" "snd sh" iw a] by blast

lemma NewStandardIndicatorSet_dom:
  "dom (SMA (fst (NewStandardIndicatorSet ivs symbol st h))) =
     {iw. Interval iw \<in> set ivs \<and> Window iw \<in> {7, 25, 99}}"
  "dom (EWMA (fst (NewStandardIndicatorSet ivs symbol st h))) =
     {iw. Interval iw \<in> set ivs \<and> Window iw \<in> {7, 25, 99}}"
  "dom (BOLL (fst (NewStandardIndicatorSet ivs symbol st h))) =
     {iw. Interval iw \<in> set ivs \<and> Window iw = 21}"
  by (simp_all add: NewStandardIndicatorSet_def foldl_prewarm_dom_SMA foldl_prewarm_dom_EWMA
      foldl_prewarm_dom_BOLL)

lemma NewStandardIndicatorSet_K:
  "BOLL (fst (NewStandardIndicatorSet ivs symbol st h)) iw = Some a \<Longrightarrow>
     a < length (boll_heap (snd (NewStandardIndicatorSet ivs symbol st h))) \<and>
     BOLL_K (boll_heap (snd (NewStandardIndicatorSet ivs symbol st h)) ! a) = float64_2"
  unfolding NewStandardIndicatorSet_def
  using foldl_prewarm_K [of "(\<lparr>Symbol = symbol, SMA = Map.empty, EWMA = Map.empty, BOLL = Map.empty, store = st\<rparr>, h)" st ivs]
  by simp

lemma NewStandardIndicatorSet_fresh:
  "SMA (fst (NewStandardIndicatorSet ivs symbol st h)) iw = Some a \<Longrightarrow> length (sma_heap h) \<le> a"
  "EWMA (fst (NewStandardIndicatorSet ivs symbol st h)) iw = Some a \<Longrightarrow> length (ewma_heap h) \<le> a"
  "BOLL (fst (NewStandardIndicatorSet ivs symbol st h)) iw = Some a \<Longrightarrow> length (boll_heap h) \<le> a"
  unfolding NewStandardIndicatorSet_def
  using foldl_prewarm_fresh_SMA [of "length (sma_heap h)" "(\<lparr>Symbol = symbol, SMA = Map.empty, EWMA = Map.empty, BOLL = Map.empty, store = st\<rparr>, h)" st ivs]
    foldl_prewarm_fresh_EWMA [of "length (ewma_heap h)" "(\<lparr>Symbol = symbol, SMA = Map.empty, EWMA = Map.empty, BOLL = Map.empty, store = st\<rparr>, h)" st ivs]
    foldl_prewarm_fresh_BOLL [of "length (boll_heap h)" "(\<lparr>Symbol = symbol, SMA = Map.empty, EWMA = Map.empty, BOLL = Map.empty, store = st\<rparr>, h)" st ivs]
  by simp_all

lemma NewStandardIndicatorSet_lengths:
  "length (sma_heap (snd (NewStandardIndicatorSet ivs symbol st h))) = length (sma_heap h) + 3 * length ivs"
  "length (ewma_heap (snd (NewStandardIndicatorSet ivs symbol st h))) = length (ewma_heap h) + 3 * length ivs"
  "length (boll_heap (snd (NewStandardIndicatorSet ivs symbol st h))) = length (boll_heap h) + length ivs"
  "length (bound (snd (NewStandardIndicatorSet ivs symbol st h))) = length (bound h) + 7 * length ivs"
  by (simp_all add: NewStandardIndicatorSet_def foldl_prewarm_lengths)

lemma NewStandardIndicatorSet_prefix:
  "prefix (sma_heap h) (sma_heap (snd (NewStandardIndicatorSet ivs symbol st h)))"
  "prefix (ewma_heap h) (ewma_heap (snd (NewStandardIndicatorSet ivs symbol st h)))"
  "prefix (boll_heap h) (boll_heap (snd (NewStandardIndicatorSet ivs symbol st h)))"
  "prefix (bound h) (bound (snd (NewStandardIndicatorSet ivs symbol st h)))"
  unfolding NewStandardIndicatorSet_def
  using foldl_prewarm_prefix [of "(\<lparr>Symbol = symbol, SMA = Map.empty, EWMA = Map.empty, BOLL = Map.empty, store = st\<rparr>, h)" st ivs]
  by simp_all

lemma key_inj:
  assumes "\<And>iw a. m iw = Some a \<Longrightarrow> key a = iw"
  shows "inj_on m (dom m)"
  by (rule inj_onI) (metis assms domD)

lemma example_wf: "heap_wf empty_heap"
  by (simp add: heap_wf_def empty_heap_def)

lemma example_reg_inv: "reg_inv example_registry"
  unfolding example_registry_def by (rule NewStandardIndicatorSet_reg_inv [OF example_wf])

lemma do_call_entry:
  "SMA (fst (do_call sh (Call_GetSMA iw))) iw \<noteq> None"
  "EWMA (fst (do_call sh (Call_GetEWMA iw))) iw \<noteq> None"
  "BOLL (fst (do_call sh (Call_GetBOLL iw k))) iw \<noteq> None"
  by (simp_all add: do_call_eq del: do_call.simps)

lemma GetSMA_stable:
  assumes "reg_inv (s, h)"
  shows "(case GetSMA s h iw of
            (r, s1, h1) \<Rightarrow>
              (case SMA s1 iw of
                 None \<Rightarrow> False
               | Some a \<Rightarrow>
                   a < length (sma_heap h1) \<and> SMA_IntervalWindow (sma_heap h1 ! a) = iw \<and>
                   bound_once h1 (SMA_ref a) (store s1) \<and>
                   (case run_calls (s1, h1) cs of (s2, h2) \<Rightarrow> GetSMA s2 h2 iw = (Some a, s2, h2))))"
proof -
  define sh1 where "sh1 = do_call (s, h) (Call_GetSMA iw)"
  have eq: "snd (GetSMA s h iw) = sh1"
    by (simp add: sh1_def)
  obtain a where a: "SMA (fst sh1) iw = Some a"
    using do_call_entry(1) [of "(s, h)" iw] unfolding sh1_def by blast
  have inv: "reg_inv sh1"
    unfolding sh1_def by (rule do_call_reg_inv [OF assms])
  have later: "SMA (fst (run_calls sh1 cs)) iw = Some a"
    by (rule extends_entry(1) [OF run_calls_extends a])
  have "GetSMA (fst (run_calls sh1 cs)) (snd (run_calls sh1 cs)) iw =
          (Some a, fst (run_calls sh1 cs), snd (run_calls sh1 cs))"
    by (rule GetSMA_hit [OF later])
  then show ?thesis
    using reg_inv_SMA [OF inv a] a
    by (simp add: case_prod_beta eq [symmetric])
qed

lemma GetEWMA_stable:
  assumes "reg_inv (s, h)"
  shows "(case GetEWMA s h iw of
            (r, s1, h1) \<Rightarrow>
              (case EWMA s1 iw of
                 None \<Rightarrow> False
               | Some a \<Rightarrow>
                   a < length (ewma_heap h1) \<and> EWMA_IntervalWindow (ewma_heap h1 ! a) = iw \<and>
                   bound_once h1 (EWMA_ref a) (store s1) \<and>
                   (case run_calls (s1, h1) cs of (s2, h2) \<Rightarrow> GetEWMA s2 h2 iw = (Some a, s2, h2))))"
proof -
  define sh1 where "sh1 = do_call (s, h) (Call_GetEWMA iw)"
  have eq: "snd (GetEWMA s h iw) = sh1"
    by (simp add: sh1_def)
  obtain a where a: "EWMA (fst sh1) iw = Some a"
    using do_call_entry(2) [of "(s, h)" iw] unfolding sh1_def by blast
  have inv: "reg_inv sh1"
    unfolding sh1_def by (rule do_call_reg_inv [OF assms])
  have later: "EWMA (fst (run_calls sh1 cs)) iw = Some a"
    by (rule extends_entry(2) [OF run_calls_extends a])
  have "GetEWMA (fst (run_calls sh1 cs)) (snd (run_calls sh1 cs)) iw =
          (Some a, fst (run_calls sh1 cs), snd (run_calls sh1 cs))"
    by (rule GetEWMA_hit [OF later])
  then show ?thesis
    using reg_inv_EWMA [OF inv a] a
    by (simp add: case_prod_beta eq [symmetric])
qed

lemma GetBOLL_stable:
  assumes "reg_inv (s, h)"
  shows "(case GetBOLL s h iw k of
            (r, s1, h1) \<Rightarrow>
              (case BOLL s1 iw of
                 None \<Rightarrow> False
               | Some a \<Rightarrow>
                   a < length (boll_heap h1) \<and> BOLL_IntervalWindow (boll_heap h1 ! a) = iw \<and>
                   bound_once h1 (BOLL_ref a) (store s1) \<and>
                   (case run_calls (s1, h1) cs of (s2, h2) \<Rightarrow> GetBOLL s2 h2 iw k' = (Some a, s2, h2))))"
proof -
  define sh1 where "sh1 = do_call (s, h) (Call_GetBOLL iw k)"
  have eq: "snd (GetBOLL s h iw k) = sh1"
    by (simp add: sh1_def)
  obtain a where a: "BOLL (fst sh1) iw = Some a"
    using do_call_entry(3) [of "(s, h)" iw k] unfolding sh1_def by blast
  have inv: "reg_inv sh1"
    unfolding sh1_def by (rule do_call_reg_inv [OF assms])
  have later: "BOLL (fst (run_calls sh1 cs)) iw = Some a"
    by (rule extends_entry(3) [OF run_calls_extends a])
  have "GetBOLL (fst (run_calls sh1 cs)) (snd (run_calls sh1 cs)) iw k' =
          (Some a, fst (run_calls sh1 cs), snd (run_calls sh1 cs))"
    by (rule GetBOLL_hit [OF later])
  then show ?thesis
    using reg_inv_BOLL [OF inv a] a
    by (simp add: case_prod_beta eq [symmetric])
qed

section \<open>Lemmas about the session\<close>

lemma deref_Inr: "deref objs p = Inr x \<longleftrightarrow> (\<exists>a. p = Some a \<and> a < length objs \<and> objs ! a = x)"
  by (auto simp: deref_def split: option.splits)

lemma Subscribe_valid:
  assumes "deref sessions p = Inr session"
  shows "Subscribe sessions p channel symbol options =
     Inr (p, sessions[the p := session
        \<lparr>loadedSymbols := (loadedSymbols session)(symbol \<mapsto> ()),
         Subscriptions := (Subscriptions session)
           (\<lparr>Subscription_Channel = channel, Subscription_Symbol = symbol, Subscription_Options = options\<rparr>
            \<mapsto> \<lparr>Subscription_Channel = channel, Subscription_Symbol = symbol, Subscription_Options = options\<rparr>)\<rparr>])"
  using assms by (auto simp: Subscribe_def deref_def Let_def split: option.splits if_splits)

lemma deref_update:
  "deref sessions p = Inr session \<Longrightarrow> deref (sessions[the p := x]) p = Inr x"
  by (auto simp: deref_Inr)

lemma example_session_deref:
  "deref (snd example_session) (fst example_session) = Inr (snd example_session ! 0)"
  by (simp add: example_session_def NewExchangeSession_def deref_def)

lemma subscribe_all_keeps:
  assumes "deref sessions p = Inr session"
  shows "\<exists>sessions2 session2.
           subscribe_all sessions p subs = Inr sessions2 \<and>
           deref sessions2 p = Inr session2 \<and>
           markets session2 = markets session \<and>
           startPrices session2 = startPrices session \<and>
           lastPrices session2 = lastPrices session \<and>
           marketDataStores session2 = marketDataStores session \<and>
           standardIndicatorSets session2 = standardIndicatorSets session"
  using assms
proof (induction subs arbitrary: sessions session)
  case Nil
  then show ?case by simp
next
  case (Cons x subs)
  obtain channel symbol options where x: "x = (channel, symbol, options)"
    by (cases x) auto
  let ?sub = "\<lparr>Subscription_Channel = channel, Subscription_Symbol = symbol, Subscription_Options = options\<rparr>"
  let ?s1 = "session\<lparr>loadedSymbols := (loadedSymbols session)(symbol \<mapsto> ()),
         Subscriptions := (Subscriptions session)(?sub \<mapsto> ?sub)\<rparr>"
  have step: "Subscribe sessions p channel symbol options = Inr (p, sessions[the p := ?s1])"
    by (rule Subscribe_valid [OF Cons.prems])
  have d1: "deref (sessions[the p := ?s1]) p = Inr ?s1"
    by (rule deref_update [OF Cons.prems])
  from Cons.IH [OF d1] show ?case
    by (simp add: x step)
qed

lemma example_registry_unfold:
  "example_registry =
     prewarm_interval (Some 0) (prewarm_interval (Some 0)
       (\<lparr>Symbol = ''BTCUSDT'', SMA = Map.empty, EWMA = Map.empty, BOLL = Map.empty, store = Some 0\<rparr>,
        empty_heap) ''1m'') ''1h''"
  by (simp add: example_registry_def NewStandardIndicatorSet_def)

lemmas example_eval = example_registry_unfold prewarm_interval_add prewarm_window_add
  add_SMA_def add_EWMA_def add_BOLL_def empty_heap_def

section \<open>The claims\<close>

text \<open>
  C1. The claim: for every key, GetSMA, GetEWMA and GetBOLL return the indicator
  instance for that key, on a cache miss the newly constructed one, and never nil.
  The code does not: in the registry of the example, the key (1m, 14) is absent from
  the three maps; each of the three methods allocates, binds and stores an instance
  for it (at address 6, 6 and 2) and returns nil.
\<close>

theorem C1_get_or_create_returns_nil_on_miss:
  "fst (GetSMA (fst example_registry) (snd example_registry) \<lparr>Interval = ''1m'', Window = 14\<rparr>) = None \<and>
   SMA (fst (snd (GetSMA (fst example_registry) (snd example_registry) \<lparr>Interval = ''1m'', Window = 14\<rparr>)))
     \<lparr>Interval = ''1m'', Window = 14\<rparr> = Some 6 \<and>
   fst (GetEWMA (fst example_registry) (snd example_registry) \<lparr>Interval = ''1m'', Window = 14\<rparr>) = None \<and>
   EWMA (fst (snd (GetEWMA (fst example_registry) (snd example_registry) \<lparr>Interval = ''1m'', Window = 14\<rparr>)))
     \<lparr>Interval = ''1m'', Window = 14\<rparr> = Some 6 \<and>
   fst (GetBOLL (fst example_registry) (snd example_registry) \<lparr>Interval = ''1m'', Window = 14\<rparr> float64_2) = None \<and>
   BOLL (fst (snd (GetBOLL (fst example_registry) (snd example_registry) \<lparr>Interval = ''1m'', Window = 14\<rparr> float64_2)))
     \<lparr>Interval = ''1m'', Window = 14\<rparr> = Some 2"
  by code_simp

text \<open>
  C2. The claim: two calls in succession of a get-or-create method with the same key
  return the identical instance. The code does not when the key is absent before the
  first call: in the registry of the example, the first GetSMA for the key (1m, 14)
  returns nil and the second returns the instance at address 6.
\<close>

theorem C2_second_call_differs_from_first:
  "(case GetSMA (fst example_registry) (snd example_registry) \<lparr>Interval = ''1m'', Window = 14\<rparr> of
      (r1, s1, h1) \<Rightarrow>
        (case GetSMA s1 h1 \<lparr>Interval = ''1m'', Window = 14\<rparr> of
           (r2, s2, h2) \<Rightarrow> r1 = None \<and> r2 = Some 6 \<and> r1 \<noteq> r2))"
  by code_simp

text \<open>
  C3. NewStandardIndicatorSet pre-warms exactly the following. The keys of the SMA map
  and of the EWMA map are the pairs of a supported interval and a window in 7, 25, 99;
  the keys of the BOLL map are the pairs of a supported interval and the window 21.
  Every entry is the address of an indicator allocated by the constructor, whose key
  is the entry's key, bound exactly once, to the store; every BOLL entry has the
  deviation multiplier 2.0; different keys have different instances. The constructor
  allocates three SMA and three EWMA indicators and one BOLL indicator for each
  supported interval and nothing else, and calls Bind seven times for each interval;
  what was in the heap before is unchanged. With two supported intervals the SMA map
  has 6 entries, the EWMA map 6 and the BOLL map 2.
\<close>

theorem C3_NewStandardIndicatorSet_prewarms:
  assumes "distinct ivs" and "heap_wf h0"
  shows "(case NewStandardIndicatorSet ivs symbol st h0 of
            (s, h) \<Rightarrow>
              dom (SMA s) = {iw. Interval iw \<in> set ivs \<and> Window iw \<in> {7, 25, 99}} \<and>
              dom (EWMA s) = {iw. Interval iw \<in> set ivs \<and> Window iw \<in> {7, 25, 99}} \<and>
              dom (BOLL s) = {iw. Interval iw \<in> set ivs \<and> Window iw = 21} \<and>
              (\<forall>iw a. SMA s iw = Some a \<longrightarrow>
                 length (sma_heap h0) \<le> a \<and> a < length (sma_heap h) \<and>
                 SMA_IntervalWindow (sma_heap h ! a) = iw \<and> bound_once h (SMA_ref a) st) \<and>
              (\<forall>iw a. EWMA s iw = Some a \<longrightarrow>
                 length (ewma_heap h0) \<le> a \<and> a < length (ewma_heap h) \<and>
                 EWMA_IntervalWindow (ewma_heap h ! a) = iw \<and> bound_once h (EWMA_ref a) st) \<and>
              (\<forall>iw a. BOLL s iw = Some a \<longrightarrow>
                 length (boll_heap h0) \<le> a \<and> a < length (boll_heap h) \<and>
                 BOLL_IntervalWindow (boll_heap h ! a) = iw \<and>
                 BOLL_K (boll_heap h ! a) = float64_2 \<and> bound_once h (BOLL_ref a) st) \<and>
              inj_on (SMA s) (dom (SMA s)) \<and> inj_on (EWMA s) (dom (EWMA s)) \<and>
              inj_on (BOLL s) (dom (BOLL s)) \<and>
              card (dom (SMA s)) = 3 * length ivs \<and> card (dom (EWMA s)) = 3 * length ivs \<and>
              card (dom (BOLL s)) = length ivs \<and>
              length (sma_heap h) = length (sma_heap h0) + 3 * length ivs \<and>
              length (ewma_heap h) = length (ewma_heap h0) + 3 * length ivs \<and>
              length (boll_heap h) = length (boll_heap h0) + length ivs \<and>
              length (bound h) = length (bound h0) + 7 * length ivs \<and>
              prefix (sma_heap h0) (sma_heap h) \<and> prefix (ewma_heap h0) (ewma_heap h) \<and>
              prefix (boll_heap h0) (boll_heap h) \<and> prefix (bound h0) (bound h) \<and>
              store s = st \<and> Symbol s = symbol \<and>
              (length ivs = 2 \<longrightarrow>
                 card (dom (SMA s)) = 6 \<and> card (dom (EWMA s)) = 6 \<and> card (dom (BOLL s)) = 2))"
proof -
  define sh where "sh = NewStandardIndicatorSet ivs symbol st h0"
  have inv: "reg_inv sh" and st: "store (fst sh) = st" and sym: "Symbol (fst sh) = symbol"
    unfolding sh_def by (simp_all add: NewStandardIndicatorSet_reg_inv assms(2))
  have doms:
    "dom (SMA (fst sh)) = {iw. Interval iw \<in> set ivs \<and> Window iw \<in> {7, 25, 99}}"
    "dom (EWMA (fst sh)) = {iw. Interval iw \<in> set ivs \<and> Window iw \<in> {7, 25, 99}}"
    "dom (BOLL (fst sh)) = {iw. Interval iw \<in> set ivs \<and> Window iw = 21}"
    unfolding sh_def by (rule NewStandardIndicatorSet_dom)+
  have sma: "\<forall>iw a. SMA (fst sh) iw = Some a \<longrightarrow>
       length (sma_heap h0) \<le> a \<and> a < length (sma_heap (snd sh)) \<and>
       SMA_IntervalWindow (sma_heap (snd sh) ! a) = iw \<and> bound_once (snd sh) (SMA_ref a) st"
  proof (intro allI impI)
    fix iw a assume e: "SMA (fst sh) iw = Some a"
    have "length (sma_heap h0) \<le> a"
      using e NewStandardIndicatorSet_fresh(1) [of ivs symbol st h0 iw a] by (simp add: sh_def)
    then show "length (sma_heap h0) \<le> a \<and> a < length (sma_heap (snd sh)) \<and>
       SMA_IntervalWindow (sma_heap (snd sh) ! a) = iw \<and> bound_once (snd sh) (SMA_ref a) st"
      using reg_inv_SMA [OF inv e] by (simp add: st)
  qed
  have ewma: "\<forall>iw a. EWMA (fst sh) iw = Some a \<longrightarrow>
       length (ewma_heap h0) \<le> a \<and> a < length (ewma_heap (snd sh)) \<and>
       EWMA_IntervalWindow (ewma_heap (snd sh) ! a) = iw \<and> bound_once (snd sh) (EWMA_ref a) st"
  proof (intro allI impI)
    fix iw a assume e: "EWMA (fst sh) iw = Some a"
    have "length (ewma_heap h0) \<le> a"
      using e NewStandardIndicatorSet_fresh(2) [of ivs symbol st h0 iw a] by (simp add: sh_def)
    then show "length (ewma_heap h0) \<le> a \<and> a < length (ewma_heap (snd sh)) \<and>
       EWMA_IntervalWindow (ewma_heap (snd sh) ! a) = iw \<and> bound_once (snd sh) (EWMA_ref a) st"
      using reg_inv_EWMA [OF inv e] by (simp add: st)
  qed
  have boll: "\<forall>iw a. BOLL (fst sh) iw = Some a \<longrightarrow>
       length (boll_heap h0) \<le> a \<and> a < length (boll_heap (snd sh)) \<and>
       BOLL_IntervalWindow (boll_heap (snd sh) ! a) = iw \<and>
       BOLL_K (boll_heap (snd sh) ! a) = float64_2 \<and> bound_once (snd sh) (BOLL_ref a) st"
  proof (intro allI impI)
    fix iw a assume e: "BOLL (fst sh) iw = Some a"
    have "length (boll_heap h0) \<le> a"
      using e NewStandardIndicatorSet_fresh(3) [of ivs symbol st h0 iw a] by (simp add: sh_def)
    moreover have "BOLL_K (boll_heap (snd sh) ! a) = float64_2"
      using e NewStandardIndicatorSet_K [of ivs symbol st h0 iw a] by (simp add: sh_def)
    ultimately show "length (boll_heap h0) \<le> a \<and> a < length (boll_heap (snd sh)) \<and>
       BOLL_IntervalWindow (boll_heap (snd sh) ! a) = iw \<and>
       BOLL_K (boll_heap (snd sh) ! a) = float64_2 \<and> bound_once (snd sh) (BOLL_ref a) st"
      using reg_inv_BOLL [OF inv e] by (simp add: st)
  qed
  have inj1: "inj_on (SMA (fst sh)) (dom (SMA (fst sh)))"
    by (rule key_inj [where key = "\<lambda>a. SMA_IntervalWindow (sma_heap (snd sh) ! a)"])
       (simp add: sma)
  have inj2: "inj_on (EWMA (fst sh)) (dom (EWMA (fst sh)))"
    by (rule key_inj [where key = "\<lambda>a. EWMA_IntervalWindow (ewma_heap (snd sh) ! a)"])
       (simp add: ewma)
  have inj3: "inj_on (BOLL (fst sh)) (dom (BOLL (fst sh)))"
    by (rule key_inj [where key = "\<lambda>a. BOLL_IntervalWindow (boll_heap (snd sh) ! a)"])
       (simp add: boll)
  have c3: "card {iw :: IntervalWindow. Interval iw \<in> set ivs \<and> Window iw \<in> {7, 25, 99}} = 3 * length ivs"
    using card_keys [OF assms(1), of "{7, 25, 99}"] by simp
  have "{iw :: IntervalWindow. Interval iw \<in> set ivs \<and> Window iw = 21} =
        {iw. Interval iw \<in> set ivs \<and> Window iw \<in> {21}}"
    by simp
  then have c1: "card {iw :: IntervalWindow. Interval iw \<in> set ivs \<and> Window iw = 21} = length ivs"
    using card_keys [OF assms(1), of "{21}"] by simp
  have cards: "card (dom (SMA (fst sh))) = 3 * length ivs"
    "card (dom (EWMA (fst sh))) = 3 * length ivs" "card (dom (BOLL (fst sh))) = length ivs"
    by (simp_all only: doms c3 c1)
  have two: "length ivs = 2 \<longrightarrow>
      card (dom (SMA (fst sh))) = 6 \<and> card (dom (EWMA (fst sh))) = 6 \<and> card (dom (BOLL (fst sh))) = 2"
    by (simp add: cards)
  have lens: "length (sma_heap (snd sh)) = length (sma_heap h0) + 3 * length ivs"
    "length (ewma_heap (snd sh)) = length (ewma_heap h0) + 3 * length ivs"
    "length (boll_heap (snd sh)) = length (boll_heap h0) + length ivs"
    "length (bound (snd sh)) = length (bound h0) + 7 * length ivs"
    unfolding sh_def by (rule NewStandardIndicatorSet_lengths)+
  have pre: "prefix (sma_heap h0) (sma_heap (snd sh))" "prefix (ewma_heap h0) (ewma_heap (snd sh))"
    "prefix (boll_heap h0) (boll_heap (snd sh))" "prefix (bound h0) (bound (snd sh))"
    unfolding sh_def by (rule NewStandardIndicatorSet_prefix)+
  show ?thesis
    unfolding case_prod_beta sh_def [symmetric]
    by (intro conjI) (fact doms sma ewma boll inj1 inj2 inj3 cards lens pre st sym two)+
qed

theorem C3_NewStandardIndicatorSet_prewarms_witness:
  "distinct [''1m'', ''1h''] \<and> heap_wf empty_heap \<and>
   (case NewStandardIndicatorSet [''1m'', ''1h''] ''BTCUSDT'' (Some 0) empty_heap of
      (s, h) \<Rightarrow>
        card (dom (SMA s)) = 6 \<and> card (dom (EWMA s)) = 6 \<and> card (dom (BOLL s)) = 2 \<and>
        dom (BOLL s) = {iw. Interval iw \<in> set [''1m'', ''1h''] \<and> Window iw = 21} \<and>
        length (sma_heap h) = 6 \<and> length (ewma_heap h) = 6 \<and> length (boll_heap h) = 2 \<and>
        length (bound h) = 14)"
proof -
  let ?X = "NewStandardIndicatorSet [''1m'', ''1h''] ''BTCUSDT'' (Some 0) empty_heap"
  have d: "distinct [''1m'', ''1h'']"
    by simp
  note t = C3_NewStandardIndicatorSet_prewarms [OF d example_wf, where symbol = "''BTCUSDT''"
      and st = "Some 0", unfolded case_prod_beta]
  from t have "length [''1m'', ''1h''] = 2 \<longrightarrow>
      card (dom (SMA (fst ?X))) = 6 \<and> card (dom (EWMA (fst ?X))) = 6 \<and> card (dom (BOLL (fst ?X))) = 2"
    by blast
  then have cards: "card (dom (SMA (fst ?X))) = 6" "card (dom (EWMA (fst ?X))) = 6"
    "card (dom (BOLL (fst ?X))) = 2"
    by simp_all
  from t have dom_boll: "dom (BOLL (fst ?X)) = {iw. Interval iw \<in> set [''1m'', ''1h''] \<and> Window iw = 21}"
    by blast
  from t have "length (sma_heap (snd ?X)) = length (sma_heap empty_heap) + 3 * length [''1m'', ''1h'']"
    "length (ewma_heap (snd ?X)) = length (ewma_heap empty_heap) + 3 * length [''1m'', ''1h'']"
    "length (boll_heap (snd ?X)) = length (boll_heap empty_heap) + length [''1m'', ''1h'']"
    "length (bound (snd ?X)) = length (bound empty_heap) + 7 * length [''1m'', ''1h'']"
    by blast+
  then have lens: "length (sma_heap (snd ?X)) = 6" "length (ewma_heap (snd ?X)) = 6"
    "length (boll_heap (snd ?X)) = 2" "length (bound (snd ?X)) = 14"
    by (simp_all add: empty_heap_def)
  show ?thesis
    unfolding case_prod_beta
    by (intro conjI) (fact d example_wf cards dom_boll lens)+
qed

text \<open>
  C4. For a supported interval, GetBOLL with the key (interval, 21) and any deviation
  multiplier, called on the constructed registry, also after any sequence of
  get-or-create calls, returns the instance the constructor stored under the key,
  whose multiplier is 2.0; the registry and the heap are unchanged by the call, so no
  instance is constructed or bound and the multiplier of the call is ignored.
\<close>

theorem C4_GetBOLL_prewarmed_hit:
  assumes "i \<in> set ivs"
  shows "(case run_calls (NewStandardIndicatorSet ivs symbol st h0) cs of
            (s, h) \<Rightarrow>
              (case BOLL (fst (NewStandardIndicatorSet ivs symbol st h0)) \<lparr>Interval = i, Window = 21\<rparr> of
                 None \<Rightarrow> False
               | Some a \<Rightarrow>
                   GetBOLL s h \<lparr>Interval = i, Window = 21\<rparr> bandWidth = (Some a, s, h) \<and>
                   a < length (boll_heap h) \<and> BOLL_K (boll_heap h ! a) = float64_2))"
proof -
  define sh0 where "sh0 = NewStandardIndicatorSet ivs symbol st h0"
  define sh where "sh = run_calls sh0 cs"
  have "\<lparr>Interval = i, Window = 21\<rparr> \<in> dom (BOLL (fst sh0))"
    unfolding sh0_def NewStandardIndicatorSet_dom using assms by simp
  then obtain a where a: "BOLL (fst sh0) \<lparr>Interval = i, Window = 21\<rparr> = Some a"
    by blast
  have k: "a < length (boll_heap (snd sh0)) \<and> BOLL_K (boll_heap (snd sh0) ! a) = float64_2"
    using a NewStandardIndicatorSet_K [of ivs symbol st h0 "\<lparr>Interval = i, Window = 21\<rparr>" a]
    by (simp add: sh0_def)
  have ext: "extends sh0 sh"
    unfolding sh_def by (rule run_calls_extends)
  have hit: "BOLL (fst sh) \<lparr>Interval = i, Window = 21\<rparr> = Some a"
    by (rule extends_entry(3) [OF ext a])
  have "GetBOLL (fst sh) (snd sh) \<lparr>Interval = i, Window = 21\<rparr> bandWidth = (Some a, fst sh, snd sh)"
    by (rule GetBOLL_hit [OF hit])
  moreover have "a < length (boll_heap (snd sh)) \<and> BOLL_K (boll_heap (snd sh) ! a) = float64_2"
    using extends_boll_nth [OF ext, of a] k by simp
  ultimately show ?thesis
    unfolding case_prod_beta sh_def [symmetric] sh0_def [symmetric] sh_def [symmetric]
    by (simp add: a)
qed

theorem C4_GetBOLL_prewarmed_hit_witness:
  "''1h'' \<in> set [''1m'', ''1h''] \<and>
   (case run_calls example_registry [Call_GetBOLL \<lparr>Interval = ''1h'', Window = 21\<rparr> 3] of
      (s, h) \<Rightarrow>
        (case BOLL (fst example_registry) \<lparr>Interval = ''1h'', Window = 21\<rparr> of
           None \<Rightarrow> False
         | Some a \<Rightarrow>
             GetBOLL s h \<lparr>Interval = ''1h'', Window = 21\<rparr> 3 = (Some a, s, h) \<and>
             a < length (boll_heap h) \<and> BOLL_K (boll_heap h ! a) = float64_2))"
proof -
  have i: "''1h'' \<in> set [''1m'', ''1h'']"
    by simp
  show ?thesis
    unfolding example_registry_def
    using i C4_GetBOLL_prewarmed_hit [OF i, where symbol = "''BTCUSDT''" and st = "Some 0"
        and ?h0.0 = empty_heap and cs = "[Call_GetBOLL \<lparr>Interval = ''1h'', Window = 21\<rparr> 3]"
        and bandWidth = 3]
    by simp
qed

text \<open>
  C5. GetBOLL with a key that is not in the BOLL map constructs exactly one new
  instance, whose deviation multiplier is the argument of the call, binds it to the
  store exactly once, and inserts it into the BOLL map under the key: the BOLL heap
  grows by that one object and the other heaps are unchanged, the call registers one
  consumer, the new instance with the registry's store, and in a well-formed heap this
  is the only registration of that instance.
\<close>

theorem C5_GetBOLL_miss:
  assumes "BOLL s iw = None" and "heap_wf h"
  shows "(case GetBOLL s h iw bandWidth of
            (r, s', h') \<Rightarrow>
              boll_heap h' = boll_heap h @ [\<lparr>BOLL_IntervalWindow = iw, BOLL_K = bandWidth\<rparr>] \<and>
              sma_heap h' = sma_heap h \<and> ewma_heap h' = ewma_heap h \<and>
              bound h' = bound h @ [(BOLL_ref (length (boll_heap h)), store s)] \<and>
              bound_once h' (BOLL_ref (length (boll_heap h))) (store s) \<and>
              s' = s\<lparr>BOLL := (BOLL s)(iw \<mapsto> length (boll_heap h))\<rparr>)"
  using assms(1) heap_wf_fresh[OF assms(2), of "BOLL_ref (length (boll_heap h))"]
  by (simp add: GetBOLL_miss add_BOLL_def bound_once_def)

theorem C5_GetBOLL_miss_witness:
  "BOLL (fst example_registry) \<lparr>Interval = ''1m'', Window = 14\<rparr> = None \<and>
   heap_wf (snd example_registry) \<and>
   (case GetBOLL (fst example_registry) (snd example_registry) \<lparr>Interval = ''1m'', Window = 14\<rparr> 3 of
      (r, s', h') \<Rightarrow>
        boll_heap h' = boll_heap (snd example_registry) @
          [\<lparr>BOLL_IntervalWindow = \<lparr>Interval = ''1m'', Window = 14\<rparr>, BOLL_K = 3\<rparr>] \<and>
        sma_heap h' = sma_heap (snd example_registry) \<and>
        ewma_heap h' = ewma_heap (snd example_registry) \<and>
        bound h' = bound (snd example_registry) @
          [(BOLL_ref (length (boll_heap (snd example_registry))), store (fst example_registry))] \<and>
        bound_once h' (BOLL_ref (length (boll_heap (snd example_registry)))) (store (fst example_registry)) \<and>
        s' = (fst example_registry)\<lparr>BOLL := (BOLL (fst example_registry))
               (\<lparr>Interval = ''1m'', Window = 14\<rparr> \<mapsto> length (boll_heap (snd example_registry)))\<rparr>)"
proof -
  have miss: "BOLL (fst example_registry) \<lparr>Interval = ''1m'', Window = 14\<rparr> = None"
    by (simp add: example_eval)
  have wf: "heap_wf (snd example_registry)"
    by (simp add: example_eval heap_wf_def)
  show ?thesis
    using miss wf C5_GetBOLL_miss [OF miss wf, of 3] by simp
qed

text \<open>
  C6. After construction, also after any sequence of get-or-create calls, GetSMA and
  GetEWMA with a key of a supported interval and a window in 7, 25, 99 return the
  instance the constructor stored under the key, which is bound exactly once to the
  store, and leave the registry and the heap unchanged: no instance is constructed
  and the list of registered consumers does not grow.
\<close>

theorem C6_prewarmed_hit:
  assumes "i \<in> set ivs" and "w \<in> {7, 25, 99}" and "heap_wf h0"
  shows "(case run_calls (NewStandardIndicatorSet ivs symbol st h0) cs of
            (s, h) \<Rightarrow>
              (case SMA (fst (NewStandardIndicatorSet ivs symbol st h0)) \<lparr>Interval = i, Window = w\<rparr> of
                 None \<Rightarrow> False
               | Some a \<Rightarrow>
                   GetSMA s h \<lparr>Interval = i, Window = w\<rparr> = (Some a, s, h) \<and>
                   bound_once h (SMA_ref a) st) \<and>
              (case EWMA (fst (NewStandardIndicatorSet ivs symbol st h0)) \<lparr>Interval = i, Window = w\<rparr> of
                 None \<Rightarrow> False
               | Some b \<Rightarrow>
                   GetEWMA s h \<lparr>Interval = i, Window = w\<rparr> = (Some b, s, h) \<and>
                   bound_once h (EWMA_ref b) st))"
proof -
  define sh0 where "sh0 = NewStandardIndicatorSet ivs symbol st h0"
  define sh where "sh = run_calls sh0 cs"
  have "\<lparr>Interval = i, Window = w\<rparr> \<in> dom (SMA (fst sh0))"
    "\<lparr>Interval = i, Window = w\<rparr> \<in> dom (EWMA (fst sh0))"
    unfolding sh0_def NewStandardIndicatorSet_dom using assms(1,2) by simp_all
  then obtain a b where a: "SMA (fst sh0) \<lparr>Interval = i, Window = w\<rparr> = Some a"
    and b: "EWMA (fst sh0) \<lparr>Interval = i, Window = w\<rparr> = Some b"
    by blast
  have ext: "extends sh0 sh"
    unfolding sh_def by (rule run_calls_extends)
  have inv: "reg_inv sh"
    unfolding sh_def sh0_def
    by (rule run_calls_reg_inv [OF NewStandardIndicatorSet_reg_inv [OF assms(3)]])
  have st: "store (fst sh) = st"
    using extends_store [OF ext] by (simp add: sh0_def)
  have hit_a: "SMA (fst sh) \<lparr>Interval = i, Window = w\<rparr> = Some a"
    by (rule extends_entry(1) [OF ext a])
  have hit_b: "EWMA (fst sh) \<lparr>Interval = i, Window = w\<rparr> = Some b"
    by (rule extends_entry(2) [OF ext b])
  have "GetSMA (fst sh) (snd sh) \<lparr>Interval = i, Window = w\<rparr> = (Some a, fst sh, snd sh)"
    by (rule GetSMA_hit [OF hit_a])
  moreover have "bound_once (snd sh) (SMA_ref a) st"
    using reg_inv_SMA [OF inv hit_a] by (simp add: st)
  moreover have "GetEWMA (fst sh) (snd sh) \<lparr>Interval = i, Window = w\<rparr> = (Some b, fst sh, snd sh)"
    by (rule GetEWMA_hit [OF hit_b])
  moreover have "bound_once (snd sh) (EWMA_ref b) st"
    using reg_inv_EWMA [OF inv hit_b] by (simp add: st)
  ultimately show ?thesis
    unfolding case_prod_beta sh_def [symmetric] sh0_def [symmetric] sh_def [symmetric]
    by (simp add: a b)
qed

theorem C6_prewarmed_hit_witness:
  "''1h'' \<in> set [''1m'', ''1h''] \<and> (25 :: int) \<in> {7, 25, 99} \<and> heap_wf empty_heap \<and>
   (case run_calls example_registry [Call_GetSMA \<lparr>Interval = ''1m'', Window = 14\<rparr>] of
      (s, h) \<Rightarrow>
        (case SMA (fst example_registry) \<lparr>Interval = ''1h'', Window = 25\<rparr> of
           None \<Rightarrow> False
         | Some a \<Rightarrow>
             GetSMA s h \<lparr>Interval = ''1h'', Window = 25\<rparr> = (Some a, s, h) \<and>
             bound_once h (SMA_ref a) (Some 0)) \<and>
        (case EWMA (fst example_registry) \<lparr>Interval = ''1h'', Window = 25\<rparr> of
           None \<Rightarrow> False
         | Some b \<Rightarrow>
             GetEWMA s h \<lparr>Interval = ''1h'', Window = 25\<rparr> = (Some b, s, h) \<and>
             bound_once h (EWMA_ref b) (Some 0)))"
proof -
  have i: "''1h'' \<in> set [''1m'', ''1h'']"
    by simp
  have w: "(25 :: int) \<in> {7, 25, 99}"
    by simp
  show ?thesis
    unfolding example_registry_def
    using i w example_wf C6_prewarmed_hit [OF i w example_wf, where symbol = "''BTCUSDT''" and st = "Some 0"
        and cs = "[Call_GetSMA \<lparr>Interval = ''1m'', Window = 14\<rparr>]"]
    by simp
qed

text \<open>
  C7. Subscribe is idempotent and chainable. On a session pointer that is not nil, the
  call returns the receiver; the session it points to has the symbol in the
  loaded-symbol set and the subscription in the manifest, under itself, and is
  otherwise unchanged; a second call with the same arguments returns the receiver
  again and leaves the whole session heap as the first call left it. The manifest and
  the loaded-symbol set are maps, so each holds the new key once.
\<close>

theorem C7_Subscribe_idempotent:
  assumes "deref sessions p = Inr session"
  shows "(case Subscribe sessions p channel symbol options of
            Inl e \<Rightarrow> False
          | Inr (q, sessions1) \<Rightarrow>
              q = p \<and>
              Subscribe sessions1 p channel symbol options = Inr (p, sessions1) \<and>
              length sessions1 = length sessions \<and>
              (case deref sessions1 p of
                 Inl e \<Rightarrow> False
               | Inr session1 \<Rightarrow>
                   session1 = session
                     \<lparr>loadedSymbols := (loadedSymbols session)(symbol \<mapsto> ()),
                      Subscriptions := (Subscriptions session)
                        (\<lparr>Subscription_Channel = channel, Subscription_Symbol = symbol,
                          Subscription_Options = options\<rparr>
                         \<mapsto> \<lparr>Subscription_Channel = channel, Subscription_Symbol = symbol,
                              Subscription_Options = options\<rparr>)\<rparr> \<and>
                   dom (Subscriptions session1) =
                     insert \<lparr>Subscription_Channel = channel, Subscription_Symbol = symbol,
                             Subscription_Options = options\<rparr> (dom (Subscriptions session)) \<and>
                   dom (loadedSymbols session1) = insert symbol (dom (loadedSymbols session))))"
proof -
  let ?sub = "\<lparr>Subscription_Channel = channel, Subscription_Symbol = symbol, Subscription_Options = options\<rparr>"
  let ?s1 = "session\<lparr>loadedSymbols := (loadedSymbols session)(symbol \<mapsto> ()),
         Subscriptions := (Subscriptions session)(?sub \<mapsto> ?sub)\<rparr>"
  let ?ss1 = "sessions[the p := ?s1]"
  have first: "Subscribe sessions p channel symbol options = Inr (p, ?ss1)"
    by (rule Subscribe_valid [OF assms])
  have d1: "deref ?ss1 p = Inr ?s1"
    by (rule deref_update [OF assms])
  have "Subscribe ?ss1 p channel symbol options =
          Inr (p, ?ss1[the p := ?s1\<lparr>loadedSymbols := (loadedSymbols ?s1)(symbol \<mapsto> ()),
                 Subscriptions := (Subscriptions ?s1)(?sub \<mapsto> ?sub)\<rparr>])"
    by (rule Subscribe_valid [OF d1])
  then have second: "Subscribe ?ss1 p channel symbol options = Inr (p, ?ss1)"
    by simp
  show ?thesis
    using second d1 by (simp add: first)
qed

theorem C7_Subscribe_idempotent_witness:
  "deref (snd example_session) (fst example_session) = Inr (snd example_session ! 0) \<and>
   (case Subscribe (snd example_session) (fst example_session) ''kline'' ''BTCUSDT'' ''1m'' of
      Inl e \<Rightarrow> False
    | Inr (q, sessions1) \<Rightarrow>
        q = fst example_session \<and>
        Subscribe sessions1 (fst example_session) ''kline'' ''BTCUSDT'' ''1m'' =
          Inr (fst example_session, sessions1) \<and>
        (case deref sessions1 (fst example_session) of
           Inl e \<Rightarrow> False
         | Inr session1 \<Rightarrow>
             card (dom (Subscriptions session1)) = 1 \<and>
             dom (loadedSymbols session1) = {''BTCUSDT''}))"
proof -
  have valid: "deref (snd example_session) (fst example_session) = Inr (snd example_session ! 0)"
    by (rule example_session_deref)
  have fresh: "dom (Subscriptions (snd example_session ! 0)) = {}"
    "dom (loadedSymbols (snd example_session ! 0)) = {}"
    by (simp_all add: example_session_def NewExchangeSession_def)
  show ?thesis
    using valid fresh C7_Subscribe_idempotent [OF valid, of "''kline''" "''BTCUSDT''" "''1m''"]
    by (auto split: sum.splits prod.splits if_splits)
qed

text \<open>
  C8. In a freshly constructed session, also after any sequence of Subscribe calls on
  it, each of the five accessors StandardIndicatorSet, MarketDataStore, StartPrice,
  LastPrice and Market returns, for every symbol, the zero value and found = false; none
  of them panics.
\<close>

theorem C8_lookups_not_found:
  "(case NewExchangeSession notifiability account stream sessions name exchange of
      (p, sessions1) \<Rightarrow>
        (case subscribe_all sessions1 p subs of
           Inl e \<Rightarrow> False
         | Inr sessions2 \<Rightarrow>
             StandardIndicatorSet sessions2 p symbol = Inr (None, False) \<and>
             MarketDataStore sessions2 p symbol = Inr (None, False) \<and>
             StartPrice sessions2 p symbol = Inr (0, False) \<and>
             LastPrice sessions2 p symbol = Inr (0, False) \<and>
             Market zero_Market sessions2 p symbol = Inr (zero_Market, False)))"
proof -
  obtain p sessions1 where new: "NewExchangeSession notifiability account stream sessions name exchange = (p, sessions1)"
    by (cases "NewExchangeSession notifiability account stream sessions name exchange") auto
  then obtain session where d: "deref sessions1 p = Inr session"
    and empty: "markets session = Map.empty" "startPrices session = Map.empty"
       "lastPrices session = Map.empty" "marketDataStores session = Map.empty"
       "standardIndicatorSets session = Map.empty"
    by (auto simp: NewExchangeSession_def deref_def)
  from subscribe_all_keeps [OF d, of subs] empty show ?thesis
    by (auto simp: new StandardIndicatorSet_def MarketDataStore_def StartPrice_def LastPrice_def
        Market_def comma_ok_def)
qed

text \<open>
  C9. The claim: for every symbol in the loaded-symbol set, in particular any symbol
  passed to Subscribe, the per-symbol sub-objects exist and the lookups return
  found = true. The code does not: after Subscribe on the session of the example the
  symbol BTCUSDT is in the loaded-symbol set, and the lookups of its store, indicator
  registry, price and market return found = false.
\<close>

theorem C9_loaded_symbol_without_sub_objects:
  "\<not> isl example_subscribed \<and>
   loadedSymbols (snd (projr example_subscribed) ! 0) ''BTCUSDT'' = Some () \<and>
   MarketDataStore (snd (projr example_subscribed)) (fst (projr example_subscribed)) ''BTCUSDT'' = Inr (None, False) \<and>
   StandardIndicatorSet (snd (projr example_subscribed)) (fst (projr example_subscribed)) ''BTCUSDT'' = Inr (None, False) \<and>
   LastPrice (snd (projr example_subscribed)) (fst (projr example_subscribed)) ''BTCUSDT'' = Inr (0, False) \<and>
   Market () (snd (projr example_subscribed)) (fst (projr example_subscribed)) ''BTCUSDT'' = Inr ((), False)"
  by (simp add: example_subscribed_def example_session_def NewExchangeSession_def Subscribe_def deref_def
      MarketDataStore_def StandardIndicatorSet_def LastPrice_def Market_def comma_ok_def Let_def)

text \<open>
  C9, amended. Subscribe marks the symbol as loaded and creates no sub-object: every
  lookup of a store, indicator registry, start price, last price or market returns
  after the call what it returned before it. So for a symbol passed to Subscribe whose
  store, indicator registry, price and market are in the session's maps, the four
  lookups return them with found = true.
\<close>

theorem C9_Subscribe_keeps_lookups:
  assumes "deref sessions p = Inr session"
  shows "(case Subscribe sessions p channel symbol options of
            Inl e \<Rightarrow> False
          | Inr (q, sessions1) \<Rightarrow>
              (case deref sessions1 q of
                 Inl e \<Rightarrow> False
               | Inr session1 \<Rightarrow> loadedSymbols session1 symbol = Some ()) \<and>
              (\<forall>sym. MarketDataStore sessions1 q sym = MarketDataStore sessions p sym \<and>
                     StandardIndicatorSet sessions1 q sym = StandardIndicatorSet sessions p sym \<and>
                     StartPrice sessions1 q sym = StartPrice sessions p sym \<and>
                     LastPrice sessions1 q sym = LastPrice sessions p sym \<and>
                     Market zero_Market sessions1 q sym = Market zero_Market sessions p sym) \<and>
              (\<forall>st r pr mk.
                 marketDataStores session symbol = Some st \<and>
                 standardIndicatorSets session symbol = Some r \<and>
                 lastPrices session symbol = Some pr \<and>
                 markets session symbol = Some mk \<longrightarrow>
                 MarketDataStore sessions1 q symbol = Inr (st, True) \<and>
                 StandardIndicatorSet sessions1 q symbol = Inr (r, True) \<and>
                 LastPrice sessions1 q symbol = Inr (pr, True) \<and>
                 Market zero_Market sessions1 q symbol = Inr (mk, True)))"
  using assms deref_update [OF assms]
  by (simp add: Subscribe_valid [OF assms] StandardIndicatorSet_def MarketDataStore_def StartPrice_def
      LastPrice_def Market_def comma_ok_def)

theorem C9_Subscribe_keeps_lookups_witness:
  "deref [example_loaded_session] (Some 0) = Inr example_loaded_session \<and>
   marketDataStores example_loaded_session ''BTCUSDT'' = Some (Some 0) \<and>
   standardIndicatorSets example_loaded_session ''BTCUSDT'' = Some (Some 0) \<and>
   lastPrices example_loaded_session ''BTCUSDT'' = Some float64_2 \<and>
   markets example_loaded_session ''BTCUSDT'' = Some () \<and>
   (case Subscribe [example_loaded_session] (Some 0) ''kline'' ''BTCUSDT'' ''1m'' of
      Inl e \<Rightarrow> False
    | Inr (q, sessions1) \<Rightarrow>
        MarketDataStore sessions1 q ''BTCUSDT'' = Inr (Some 0, True) \<and>
        StandardIndicatorSet sessions1 q ''BTCUSDT'' = Inr (Some 0, True) \<and>
        LastPrice sessions1 q ''BTCUSDT'' = Inr (float64_2, True) \<and>
        Market () sessions1 q ''BTCUSDT'' = Inr ((), True))"
proof -
  have valid: "deref [example_loaded_session] (Some 0) = Inr example_loaded_session"
    by (simp add: deref_def)
  have maps: "marketDataStores example_loaded_session ''BTCUSDT'' = Some (Some 0)"
    "standardIndicatorSets example_loaded_session ''BTCUSDT'' = Some (Some 0)"
    "lastPrices example_loaded_session ''BTCUSDT'' = Some float64_2"
    "markets example_loaded_session ''BTCUSDT'' = Some ()"
    by (simp_all add: example_loaded_session_def)
  show ?thesis
    using valid maps
      C9_Subscribe_keeps_lookups [OF valid, where channel = "''kline''" and symbol = "''BTCUSDT''"
        and options = "''1m''" and zero_Market = "()"]
    by (fastforce simp: Subscribe_valid [OF valid])
qed

text \<open>
  C10. In a registry that satisfies the registry invariant, after one call of GetSMA,
  GetEWMA or GetBOLL with a key, hit or miss, the map of the family holds under the key
  an allocated instance with that key, bound exactly once to the registry's store; and
  after any further sequence of get-or-create calls, a call with the same key returns
  exactly that instance and changes neither the registry nor the heap.
\<close>

theorem C10_instance_stable_after_first_call:
  assumes "reg_inv (s, h)"
  shows "(case GetSMA s h iw of
            (r, s1, h1) \<Rightarrow>
              (case SMA s1 iw of
                 None \<Rightarrow> False
               | Some a \<Rightarrow>
                   a < length (sma_heap h1) \<and> SMA_IntervalWindow (sma_heap h1 ! a) = iw \<and>
                   bound_once h1 (SMA_ref a) (store s1) \<and>
                   (case run_calls (s1, h1) cs of (s2, h2) \<Rightarrow> GetSMA s2 h2 iw = (Some a, s2, h2)))) \<and>
         (case GetEWMA s h iw of
            (r, s1, h1) \<Rightarrow>
              (case EWMA s1 iw of
                 None \<Rightarrow> False
               | Some a \<Rightarrow>
                   a < length (ewma_heap h1) \<and> EWMA_IntervalWindow (ewma_heap h1 ! a) = iw \<and>
                   bound_once h1 (EWMA_ref a) (store s1) \<and>
                   (case run_calls (s1, h1) cs of (s2, h2) \<Rightarrow> GetEWMA s2 h2 iw = (Some a, s2, h2)))) \<and>
         (case GetBOLL s h iw bandWidth of
            (r, s1, h1) \<Rightarrow>
              (case BOLL s1 iw of
                 None \<Rightarrow> False
               | Some a \<Rightarrow>
                   a < length (boll_heap h1) \<and> BOLL_IntervalWindow (boll_heap h1 ! a) = iw \<and>
                   bound_once h1 (BOLL_ref a) (store s1) \<and>
                   (case run_calls (s1, h1) cs of
                      (s2, h2) \<Rightarrow> GetBOLL s2 h2 iw bandWidth' = (Some a, s2, h2))))"
  by (intro conjI GetSMA_stable GetEWMA_stable GetBOLL_stable assms)

theorem C10_instance_stable_after_first_call_witness:
  "reg_inv (fst example_registry, snd example_registry) \<and>
   (case GetSMA (fst example_registry) (snd example_registry) \<lparr>Interval = ''1m'', Window = 14\<rparr> of
      (r, s1, h1) \<Rightarrow>
        r = None \<and>
        (case SMA s1 \<lparr>Interval = ''1m'', Window = 14\<rparr> of
           None \<Rightarrow> False
         | Some a \<Rightarrow>
             a < length (sma_heap h1) \<and>
             SMA_IntervalWindow (sma_heap h1 ! a) = \<lparr>Interval = ''1m'', Window = 14\<rparr> \<and>
             bound_once h1 (SMA_ref a) (store s1) \<and>
             (case run_calls (s1, h1) [Call_GetEWMA \<lparr>Interval = ''1m'', Window = 14\<rparr>] of
                (s2, h2) \<Rightarrow> GetSMA s2 h2 \<lparr>Interval = ''1m'', Window = 14\<rparr> = (Some a, s2, h2))))"
proof -
  have inv: "reg_inv (fst example_registry, snd example_registry)"
    using example_reg_inv by simp
  have miss: "fst (GetSMA (fst example_registry) (snd example_registry) \<lparr>Interval = ''1m'', Window = 14\<rparr>) = None"
    by code_simp
  note t = C10_instance_stable_after_first_call [OF inv, where iw = "\<lparr>Interval = ''1m'', Window = 14\<rparr>"
      and cs = "[Call_GetEWMA \<lparr>Interval = ''1m'', Window = 14\<rparr>]", THEN conjunct1]
  show ?thesis
    using inv miss t by (simp add: case_prod_beta)
qed

end
